theory Spec2Isabelle
  imports Complex_Main "HOL-Library.Product_Lexorder" "HOL-Library.Multiset"
begin

section \<open>Python strings\<close>

text \<open>
  Strings are byte lists. \<open>lower\<close> is \<^verbatim>\<open>str.lower()\<close> on ASCII letters (other bytes are
  left alone), \<open>isspace\<close> is the ASCII part of \<^verbatim>\<open>str.isspace()\<close> (codes 9-13 and 28-32),
  \<open>split\<close> is \<^verbatim>\<open>str.split()\<close> without arguments (runs of whitespace separate the words,
  no empty word is produced), \<open>strip\<close> is \<^verbatim>\<open>str.strip()\<close>, \<open>split_on\<close> is
  \<^verbatim>\<open>str.split(sep)\<close> for a one-character separator and \<open>contains\<close> is the substring
  test \<^verbatim>\<open>needle in haystack\<close>.
\<close>

definition lower_char :: "char \<Rightarrow> char" where
  "lower_char c =
     (case map_of (zip ''ABCDEFGHIJKLMNOPQRSTUVWXYZ'' ''abcdefghijklmnopqrstuvwxyz'') c of
        Some d \<Rightarrow> d
      | None \<Rightarrow> c)"

definition lower :: "string \<Rightarrow> string" where
  "lower s = map lower_char s"

definition isspace :: "char \<Rightarrow> bool" where
  "isspace c = (let n = (of_char c :: nat) in (9 \<le> n \<and> n \<le> 13) \<or> (28 \<le> n \<and> n \<le> 32))"

fun split_from :: "string \<Rightarrow> string \<Rightarrow> string list" where
  "split_from cur [] = (if cur = [] then [] else [rev cur])"
| "split_from cur (c # cs) =
     (if isspace c then (if cur = [] then split_from [] cs else rev cur # split_from [] cs)
      else split_from (c # cur) cs)"

definition split :: "string \<Rightarrow> string list" where
  "split s = split_from [] s"

definition strip :: "string \<Rightarrow> string" where
  "strip s = rev (dropWhile isspace (rev (dropWhile isspace s)))"

fun split_on_from :: "char \<Rightarrow> string \<Rightarrow> string \<Rightarrow> string list" where
  "split_on_from sep cur [] = [rev cur]"
| "split_on_from sep cur (c # cs) =
     (if c = sep then rev cur # split_on_from sep [] cs else split_on_from sep (c # cur) cs)"

definition split_on :: "char \<Rightarrow> string \<Rightarrow> string list" where
  "split_on sep s = split_on_from sep [] s"

fun starts_with :: "string \<Rightarrow> string \<Rightarrow> bool" where
  "starts_with [] hay = True"
| "starts_with (n # ns) [] = False"
| "starts_with (n # ns) (h # hs) = (n = h \<and> starts_with ns hs)"

fun contains :: "string \<Rightarrow> string \<Rightarrow> bool" where
  "contains needle [] = (needle = [])"
| "contains needle (h # hs) = (starts_with needle (h # hs) \<or> contains needle hs)"


section \<open>utils.calculate\_similarity\<close>

text \<open>
  Word-set Jaccard similarity. Python's float division is modelled by exact division on
  the reals.
\<close>

definition calculate_similarity :: "string \<Rightarrow> string \<Rightarrow> real" where
  "calculate_similarity text1 text2 =
     (if text1 = [] \<or> text2 = [] then 0
      else let words1 = set (split (lower text1));
               words2 = set (split (lower text2))
           in if words1 = {} \<or> words2 = {} then 0
              else let intersection = words1 \<inter> words2;
                       union = words1 \<union> words2
                   in if union \<noteq> {} then real (card intersection) / real (card union) else 0)"


section \<open>cognition\_base.CognitionBase: the insight store\<close>

text \<open>
  An insight record as \<open>add_insight\<close> builds it. The content is a Python dict that the
  store only ever inspects through \<^verbatim>\<open>str(content)\<close>, so the record holds that rendering.
  The timestamp is the instant \<^verbatim>\<open>datetime.now()\<close> returned, in microseconds; the source
  stores its ISO-8601 text, whose lexicographic order is the order of the instants, and
  reads it back with \<^verbatim>\<open>datetime.fromisoformat\<close>. Floats are reals.
\<close>

record insight_record =
  ins_id :: string
  timestamp :: int
  content :: string
  relevance_score :: real
  usage_count :: int

text \<open>The part of \<^verbatim>\<open>Config\<close> that the modelled functions read.\<close>

record config =
  MAX_EXECUTION_TIME :: int
  MAX_MEMORY_MB :: real
  MAX_OUTPUT_SIZE :: nat
  MIN_IMPROVEMENT_THRESHOLD :: real
  MAX_INSIGHTS_STORED :: nat
  INSIGHT_RELEVANCE_THRESHOLD :: real

definition default_config :: config where
  "default_config =
     \<lparr>MAX_EXECUTION_TIME = 30, MAX_MEMORY_MB = 1024, MAX_OUTPUT_SIZE = 10000,
      MIN_IMPROVEMENT_THRESHOLD = 0.05, MAX_INSIGHTS_STORED = 500,
      INSIGHT_RELEVANCE_THRESHOLD = 0.7\<rparr>"

text \<open>
  \<^verbatim>\<open>_generate_id\<close>: the first eight hex digits of the MD5 digest; the digest function of
  \<^verbatim>\<open>hashlib\<close> is a parameter.
\<close>

definition generate_id :: "(string \<Rightarrow> string) \<Rightarrow> string \<Rightarrow> string" where
  "generate_id md5_hexdigest c = take 8 (md5_hexdigest c)"

definition is_duplicate_insight :: "insight_record list \<Rightarrow> insight_record \<Rightarrow> bool" where
  "is_duplicate_insight insights new_insight =
     list_ex (\<lambda>existing. calculate_similarity (content existing) (content new_insight) > 0.9)
       insights"

text \<open>
  \<^verbatim>\<open>list.sort(key=..., reverse=True)\<close>: a stable sort, descending; entries with equal
  keys keep their order (CPython reverses, sorts stably ascending, and reverses again).
\<close>

definition sort_reverse :: "('a \<Rightarrow> 'k::linorder) \<Rightarrow> 'a list \<Rightarrow> 'a list" where
  "sort_reverse key xs = rev (sort_key key (rev xs))"

definition insight_key :: "insight_record \<Rightarrow> real \<times> int" where
  "insight_key x = (relevance_score x, timestamp x)"

text \<open>The record \<^verbatim>\<open>add_insight\<close> creates for a new insight.\<close>

definition new_insight_record :: "(string \<Rightarrow> string) \<Rightarrow> int \<Rightarrow> string \<Rightarrow> insight_record" where
  "new_insight_record md5_hexdigest now insight =
     \<lparr>ins_id = generate_id md5_hexdigest insight, timestamp = now, content = insight,
      relevance_score = 1, usage_count = 0\<rparr>"

definition add_insight ::
  "config \<Rightarrow> (string \<Rightarrow> string) \<Rightarrow> int \<Rightarrow> string \<Rightarrow> insight_record list \<Rightarrow> insight_record list"
where
  "add_insight cfg md5_hexdigest now insight insights =
     (let insight_record = new_insight_record md5_hexdigest now insight
      in if \<not> is_duplicate_insight insights insight_record then
           (let appended = insights @ [insight_record]
            in if length appended > MAX_INSIGHTS_STORED cfg
               then take (MAX_INSIGHTS_STORED cfg) (sort_reverse insight_key appended)
               else appended)
         else insights)"

text \<open>A sequence of calls, each with the clock reading and the content it is given.\<close>

definition add_insights ::
  "config \<Rightarrow> (string \<Rightarrow> string) \<Rightarrow> (int \<times> string) list \<Rightarrow> insight_record list
     \<Rightarrow> insight_record list"
where
  "add_insights cfg md5_hexdigest calls insights =
     fold (\<lambda>(now, insight) s. add_insight cfg md5_hexdigest now insight s) calls insights"


text \<open>
  \<^verbatim>\<open>_update_relevance_scores\<close>. The loop calls \<^verbatim>\<open>datetime.now()\<close> once per insight, so
  the clock is a function from the position in the list to the reading taken there.
  \<^verbatim>\<open>timedelta.days\<close> is the floor of the difference in days; \<^verbatim>\<open>**\<close> on floats is
  \<open>powr\<close> on the reals.
\<close>

definition microseconds_per_day :: int where
  "microseconds_per_day = 86400000000"

definition days_old :: "int \<Rightarrow> insight_record \<Rightarrow> int" where
  "days_old now x = (now - timestamp x) div microseconds_per_day"

definition age_factor :: "int \<Rightarrow> insight_record \<Rightarrow> real" where
  "age_factor now x = 0.95 powr (real_of_int (days_old now x) / 7)"

definition usage_factor :: "insight_record \<Rightarrow> real" where
  "usage_factor x = 1 + real_of_int (usage_count x) * 0.1"

definition update_relevance_scores :: "(nat \<Rightarrow> int) \<Rightarrow> insight_record list \<Rightarrow> insight_record list"
where
  "update_relevance_scores clock insights =
     map (\<lambda>(k, x). x\<lparr>relevance_score := age_factor (clock k) x * usage_factor x\<rparr>)
       (enumerate 0 insights)"

text \<open>\<^verbatim>\<open>xs[:n]\<close> for a Python int \<open>n\<close>: a negative bound counts from the end.\<close>

definition slice_to :: "int \<Rightarrow> 'a list \<Rightarrow> 'a list" where
  "slice_to n xs = (if 0 \<le> n then take (nat n) xs else take (length xs - nat (- n)) xs)"

record scored_insight =
  insight :: string
  relevance :: real
  scored_timestamp :: int

text \<open>
  The loop of \<^verbatim>\<open>get_relevant_insights\<close>: the scored entries collected so far and the
  store with the usage counts of the matching insights incremented in place.
\<close>

fun score_insights ::
  "real \<Rightarrow> string \<Rightarrow> insight_record list \<Rightarrow> scored_insight list \<times> insight_record list"
where
  "score_insights threshold query [] = ([], [])"
| "score_insights threshold query (x # xs) =
     (let score = calculate_similarity (lower query) (lower (content x));
          (scored, xs') = score_insights threshold query xs
      in if score > threshold
         then (\<lparr>insight = content x, relevance = score, scored_timestamp = timestamp x\<rparr> # scored,
               x\<lparr>usage_count := usage_count x + 1\<rparr> # xs')
         else (scored, x # xs'))"

definition get_relevant_insights ::
  "config \<Rightarrow> (nat \<Rightarrow> int) \<Rightarrow> string \<Rightarrow> int \<Rightarrow> insight_record list
     \<Rightarrow> scored_insight list \<times> insight_record list"
where
  "get_relevant_insights cfg clock query limit insights =
     (if insights = [] then ([], insights)
      else let (scored_insights, counted) =
                 score_insights (INSIGHT_RELEVANCE_THRESHOLD cfg) query insights;
               sorted_insights = sort_reverse relevance scored_insights;
               updated = update_relevance_scores clock counted
           in (slice_to limit sorted_insights, updated))"

text \<open>
  A clock that ticks across a day boundary between two iterations of the update loop: the
  readings are five microseconds apart.
\<close>

definition boundary_clock :: "nat \<Rightarrow> int" where
  "boundary_clock k = (if k = 0 then 7 * microseconds_per_day - 1 else 7 * microseconds_per_day + 4)"

definition older_insight :: insight_record where
  "older_insight =
     \<lparr>ins_id = ''0a1b2c3d'', timestamp = 0, content = ''{'key_findings': ['n: 5']}'',
      relevance_score = 1, usage_count = 0\<rparr>"

definition newer_insight :: insight_record where
  "newer_insight =
     \<lparr>ins_id = ''4e5f6a7b'', timestamp = 1, content = ''{'key_findings': ['total: 9']}'',
      relevance_score = 1, usage_count = 0\<rparr>"


text \<open>
  Two stored insights that both match one query (similarity 1 and 0.8, above the threshold
  0.7) without being duplicates of each other (similarity 0.8), and a clock that stands
  still during the update.
\<close>

definition finding_a :: insight_record where
  "finding_a =
     \<lparr>ins_id = ''1c2d3e4f'', timestamp = 0,
      content = ''{'key_findings': ['n: 5', 'm: 6', 'k: 7'], 'patterns': []}'',
      relevance_score = 1, usage_count = 0\<rparr>"

definition finding_b :: insight_record where
  "finding_b =
     \<lparr>ins_id = ''5a6b7c8d'', timestamp = 1,
      content = ''{'key_findings': ['n: 5', 'm: 6', 'k: 7'], 'patterns': ['x']}'',
      relevance_score = 1, usage_count = 0\<rparr>"

definition finding_query :: string where
  "finding_query = ''{'key_findings': ['n: 5', 'm: 6', 'k: 7'], 'patterns': []}''"

definition steady_clock :: "nat \<Rightarrow> int" where
  "steady_clock k = 2"


text \<open>A stand-in for the digest and a store of capacity one, to run the store on.\<close>

definition example_hexdigest :: "string \<Rightarrow> string" where
  "example_hexdigest s = ''9e107d9d372bb6826bd81d3542a419d6''"

definition tiny_config :: config where
  "tiny_config = default_config\<lparr>MAX_INSIGHTS_STORED := 1\<rparr>"


section \<open>JSON values, results, hypotheses and experiments\<close>

text \<open>
  The values \<^verbatim>\<open>json.loads\<close> produces. A dict is an association list read with
  \<open>map_of\<close>. \<open>truthy\<close> is Python's \<^verbatim>\<open>bool(v)\<close>.
\<close>

datatype json =
    JNull
  | JBool bool
  | JInt int
  | JFloat real
  | JStr string
  | JArr "json list"
  | JObj "(string \<times> json) list"

fun truthy :: "json \<Rightarrow> bool" where
  "truthy JNull = False"
| "truthy (JBool b) = b"
| "truthy (JInt n) = (n \<noteq> 0)"
| "truthy (JFloat x) = (x \<noteq> 0)"
| "truthy (JStr s) = (s \<noteq> [])"
| "truthy (JArr xs) = (xs \<noteq> [])"
| "truthy (JObj kvs) = (kvs \<noteq> [])"

text \<open>\<^verbatim>\<open>d.get(k)\<close> on a parsed dict: \<^verbatim>\<open>None\<close> (JSON null) when the key is missing.\<close>

definition dict_get :: "(string \<times> json) list \<Rightarrow> string \<Rightarrow> json" where
  "dict_get kvs k = (case map_of kvs k of None \<Rightarrow> JNull | Some v \<Rightarrow> v)"

datatype py_error = AttributeError | KeyError | TypeError | OtherError string

text \<open>
  The result dict of an experiment. \<open>success\<close> is the truth value of the entry. \<open>error\<close>
  is \<open>None\<close> when the key is missing, \<open>Some JNull\<close> when it holds Python's \<^verbatim>\<open>None\<close>.
  The metrics are numbers; \<^verbatim>\<open>metrics.get(k, float('inf'))\<close> is \<open>None\<close> when it is
  infinite, which is what a missing key gives.
\<close>

record result =
  success :: bool
  res_output :: json
  error :: "json option"
  metrics :: "string \<rightharpoonup> real"

record hypothesis =
  hyp_timestamp :: int
  source :: string
  description :: string
  approach :: "string option"
  code_sketch :: "string option"
  expected_outcome :: "string option"
  hyp_metrics :: "string list option"

record experiment_record =
  exp_result :: "result option"
  exp_hypothesis :: hypothesis

text \<open>Comparisons of a possibly infinite float with a finite one.\<close>

definition lt_inf :: "real option \<Rightarrow> real \<Rightarrow> bool" where
  "lt_inf x c = (case x of None \<Rightarrow> False | Some v \<Rightarrow> v < c)"

definition gt_inf :: "real option \<Rightarrow> real \<Rightarrow> bool" where
  "gt_inf x c = (case x of None \<Rightarrow> True | Some v \<Rightarrow> v > c)"


section \<open>analyst.Analyst\<close>

text \<open>
  \<^verbatim>\<open>_check_expected_outcomes\<close> and \<^verbatim>\<open>_is_novel_result\<close>. Python's \<^verbatim>\<open>str()\<close> of the
  output value is the parameter \<open>py_str\<close>.
\<close>

definition outcome_keywords :: "string list" where
  "outcome_keywords = [''improve'', ''better'', ''faster'', ''efficient'', ''pattern'', ''found'']"

definition check_expected_outcomes :: "(json \<Rightarrow> string) \<Rightarrow> result \<Rightarrow> hypothesis \<Rightarrow> bool" where
  "check_expected_outcomes py_str result hypothesis =
     (let expected = lower (case expected_outcome hypothesis of None \<Rightarrow> [] | Some e \<Rightarrow> e);
          out = lower (py_str (res_output result))
      in list_ex (\<lambda>keyword. contains keyword expected \<and> contains keyword out) outcome_keywords)"

definition is_novel_result :: "result \<Rightarrow> bool" where
  "is_novel_result result =
     (case res_output result of
        JObj kvs \<Rightarrow>
          (let unusual_keys = filter (\<lambda>k. k \<notin> set [''result'', ''time'', ''data'']) (map fst kvs)
           in length unusual_keys > 0)
      | _ \<Rightarrow> False)"

text \<open>\<^verbatim>\<open>_calculate_score\<close>, statement by statement.\<close>

definition calculate_score :: "(json \<Rightarrow> string) \<Rightarrow> result \<Rightarrow> hypothesis \<Rightarrow> real" where
  "calculate_score py_str result hypothesis =
     (let score = 0;
          score = score + 1;
          exec_time = metrics result ''execution_time'';
          score = (if lt_inf exec_time 1 then score + 0.5
                   else if gt_inf exec_time 10 then score - 0.5
                   else score);
          memory_mb = metrics result ''memory_mb'';
          score = (if lt_inf memory_mb 100 then score + 0.3
                   else if gt_inf memory_mb 500 then score - 0.3
                   else score);
          score = (if check_expected_outcomes py_str result hypothesis then score + 1 else score);
          score = (if is_novel_result result then score + 0.5 else score)
      in max 0 score)"

record comparison =
  better_than :: nat
  worse_than :: nat
  similar_to :: nat
  performance_rank :: nat
  is_improvement :: bool

text \<open>
  The loop of \<^verbatim>\<open>_compare_with_recent\<close> over the recent experiments, on the pair of the
  comparable times collected so far and the counters. A missing \<^verbatim>\<open>result\<close> entry is
  the empty dict, which is not successful.
\<close>

fun compare_loop ::
  "real \<Rightarrow> real option \<Rightarrow> experiment_record list \<Rightarrow> real list \<times> comparison
     \<Rightarrow> real list \<times> comparison"
where
  "compare_loop threshold current_time [] acc = acc"
| "compare_loop threshold current_time (e # exps) (time_comparisons, comparison) =
     (case exp_result e of
        None \<Rightarrow> compare_loop threshold current_time exps (time_comparisons, comparison)
      | Some exp_res \<Rightarrow>
          if \<not> success exp_res
          then compare_loop threshold current_time exps (time_comparisons, comparison)
          else (case metrics exp_res ''execution_time'' of
                  None \<Rightarrow> compare_loop threshold current_time exps (time_comparisons, comparison)
                | Some exp_time \<Rightarrow>
                    compare_loop threshold current_time exps
                      (time_comparisons @ [exp_time],
                       if lt_inf current_time (exp_time * (1 - threshold))
                       then comparison\<lparr>better_than := better_than comparison + 1\<rparr>
                       else if gt_inf current_time (exp_time * (1 + threshold))
                       then comparison\<lparr>worse_than := worse_than comparison + 1\<rparr>
                       else comparison\<lparr>similar_to := similar_to comparison + 1\<rparr>)))"

text \<open>\<^verbatim>\<open>list.index\<close>: the position of the first occurrence.\<close>

definition index_of :: "'a \<Rightarrow> 'a list \<Rightarrow> nat" where
  "index_of x xs = length (takeWhile (\<lambda>y. y \<noteq> x) xs)"

definition compare_with_recent :: "config \<Rightarrow> result \<Rightarrow> experiment_record list \<Rightarrow> comparison" where
  "compare_with_recent cfg result recent_experiments =
     (let comparison = \<lparr>better_than = 0, worse_than = 0, similar_to = 0, performance_rank = 0,
                         is_improvement = False\<rparr>
      in if recent_experiments = [] then comparison
         else
           let current_time = metrics result ''execution_time'';
               (time_comparisons, comparison) =
                 compare_loop (MIN_IMPROVEMENT_THRESHOLD cfg) current_time recent_experiments
                   ([], comparison)
           in case current_time of
                None \<Rightarrow> comparison
              | Some current \<Rightarrow>
                  if time_comparisons \<noteq> [] then
                    (let time_comparisons = sort (time_comparisons @ [current]);
                         rank = index_of current time_comparisons + 1
                     in comparison\<lparr>performance_rank := rank,
                                    is_improvement := rank \<le> length time_comparisons div 2\<rparr>)
                  else comparison)"

record failure_analysis =
  error_type :: string
  likely_cause :: string
  suggestions :: "string list"

text \<open>The \<^verbatim>\<open>if\<close>/\<^verbatim>\<open>elif\<close> chain of \<^verbatim>\<open>_analyze_failure\<close> on an error text.\<close>

definition classify_error :: "string \<Rightarrow> failure_analysis" where
  "classify_error error_text =
     (let failure = \<lparr>error_type = ''unknown'', likely_cause = [], suggestions = []\<rparr>
      in if contains ''timeout'' (lower error_text) then
           failure\<lparr>error_type := ''timeout'',
                   likely_cause := ''Algorithm complexity too high'',
                   suggestions := [''Reduce problem size'', ''Optimize algorithm'',
                                   ''Increase timeout limit'']\<rparr>
         else if contains ''memory'' (lower error_text) then
           failure\<lparr>error_type := ''memory'',
                   likely_cause := ''Excessive memory usage'',
                   suggestions := [''Use memory-efficient data structures'',
                                   ''Process data in chunks'', ''Reduce data size'']\<rparr>
         else if contains ''syntax'' (lower error_text) \<or> contains ''name'' (lower error_text) then
           failure\<lparr>error_type := ''code_error'',
                   likely_cause := ''Code generation issue'',
                   suggestions := [''Improve code generation prompts'',
                                   ''Add better error handling'', ''Validate generated code'']\<rparr>
         else failure)"

text \<open>
  \<^verbatim>\<open>_analyze_failure\<close>: \<^verbatim>\<open>result.get("error", "")\<close> is the empty text when the key is
  missing; a value that is not a string has no \<^verbatim>\<open>lower\<close> method, and the call raises.
\<close>

definition analyze_failure :: "result \<Rightarrow> hypothesis \<Rightarrow> py_error + failure_analysis" where
  "analyze_failure result hypothesis =
     (case error result of
        None \<Rightarrow> Inr (classify_error [])
      | Some (JStr error_text) \<Rightarrow> Inr (classify_error error_text)
      | Some _ \<Rightarrow> Inl AttributeError)"

text \<open>
  The analysis dict. \<open>an_insights\<close> and \<open>an_comparison\<close> are \<open>None\<close> while they hold the
  empty dict they are initialised with; \<open>an_failure_analysis\<close> is \<open>None\<close> while the key is
  missing.
\<close>

record 'i analysis =
  an_timestamp :: int
  an_success :: bool
  an_score :: real
  an_insights :: "'i option"
  an_comparison :: "comparison option"
  an_recommendations :: "string list"
  an_failure_analysis :: "failure_analysis option"

text \<open>
  \<^verbatim>\<open>analyze_result\<close>. Insight extraction and the recommendations consult the
  language-model oracle and Python's formatting of values; they are the parameters
  \<open>extract_insights\<close> and \<open>generate_recommendations\<close>, and an exception they raise leaves
  \<^verbatim>\<open>analyze_result\<close> as it would in the source.
\<close>

definition analyze_result ::
  "config \<Rightarrow> (json \<Rightarrow> string)
     \<Rightarrow> (result \<Rightarrow> hypothesis \<Rightarrow> comparison \<Rightarrow> py_error + 'i)
     \<Rightarrow> (result \<Rightarrow> hypothesis \<Rightarrow> 'i \<Rightarrow> py_error + string list)
     \<Rightarrow> int \<Rightarrow> result \<Rightarrow> hypothesis \<Rightarrow> experiment_record list \<Rightarrow> py_error + 'i analysis"
where
  "analyze_result cfg py_str extract_insights generate_recommendations now result hypothesis
       recent_experiments =
     (let analysis = \<lparr>an_timestamp = now, an_success = success result, an_score = 0,
                       an_insights = None, an_comparison = None, an_recommendations = [],
                       an_failure_analysis = None\<rparr>
      in if success result then
           (let analysis = analysis\<lparr>an_score := calculate_score py_str result hypothesis\<rparr>;
                comparison = compare_with_recent cfg result recent_experiments;
                analysis = analysis\<lparr>an_comparison := Some comparison\<rparr>
            in case extract_insights result hypothesis comparison of
                 Inl e \<Rightarrow> Inl e
               | Inr found \<Rightarrow>
                   (case generate_recommendations result hypothesis found of
                      Inl e \<Rightarrow> Inl e
                    | Inr recommendations \<Rightarrow>
                        Inr (analysis\<lparr>an_insights := Some found,
                                       an_recommendations := recommendations\<rparr>)))
         else
           (case analyze_failure result hypothesis of
              Inl e \<Rightarrow> Inl e
            | Inr failure \<Rightarrow> Inr (analysis\<lparr>an_failure_analysis := Some failure\<rparr>)))"


text \<open>
  In the words of the specification: the comparable times are the execution times of the
  successful recent experiments that have a finite one, in the order of the list.
\<close>

definition comparable_times :: "experiment_record list \<Rightarrow> real list" where
  "comparable_times recent_experiments =
     List.map_filter
       (\<lambda>e. case exp_result e of
               None \<Rightarrow> None
             | Some r \<Rightarrow> if success r then metrics r ''execution_time'' else None)
       recent_experiments"

text \<open>
  Results and experiments to run the analyst on: a successful result that took \<open>t\<close>
  seconds, a successful result without metrics, a timed-out result, a stand-in for
  \<^verbatim>\<open>str()\<close>, and insight extraction and recommendations that find nothing.
\<close>

definition timed_result :: "real \<Rightarrow> result" where
  "timed_result t =
     \<lparr>success = True, res_output = JNull, error = Some JNull,
      metrics = [''execution_time'' \<mapsto> t]\<rparr>"

definition bare_result :: result where
  "bare_result = \<lparr>success = True, res_output = JNull, error = Some JNull, metrics = Map.empty\<rparr>"

definition boundary_result :: "real \<Rightarrow> real \<Rightarrow> result" where
  "boundary_result t m =
     \<lparr>success = True, res_output = JNull, error = Some JNull,
      metrics = [''execution_time'' \<mapsto> t, ''memory_mb'' \<mapsto> m]\<rparr>"

definition timeout_result :: result where
  "timeout_result =
     \<lparr>success = False, res_output = JNull, error = Some (JStr ''Execution timeout (30s)''),
      metrics = Map.empty\<rparr>"

text \<open>
  The result \<^verbatim>\<open>execute_experiment\<close> hands to the analyst when the subprocess printed
  nothing: \<^verbatim>\<open>_execute_windows\<close> leaves \<^verbatim>\<open>success\<close> false and \<^verbatim>\<open>error\<close> at the
  \<^verbatim>\<open>None\<close> it was initialised with, and no metrics are computed for a failed run.
\<close>

definition silent_result :: result where
  "silent_result =
     \<lparr>success = False, res_output = JNull, error = Some JNull, metrics = Map.empty\<rparr>"

definition memory_result :: result where
  "memory_result =
     \<lparr>success = False, res_output = JNull,
      error = Some (JStr ''Memory limit exceeded: 2000.0MB''), metrics = Map.empty\<rparr>"

definition plain_hypothesis :: hypothesis where
  "plain_hypothesis =
     \<lparr>hyp_timestamp = 100, source = ''llm'', description = ''Sieve primes in segments'',
      approach = Some ''segmented sieve'', code_sketch = None,
      expected_outcome = Some ''faster enumeration'', hyp_metrics = Some [''execution_time'']\<rparr>"

definition timed_experiment :: "real \<Rightarrow> experiment_record" where
  "timed_experiment t = \<lparr>exp_result = Some (timed_result t), exp_hypothesis = plain_hypothesis\<rparr>"

definition untimed_experiment :: experiment_record where
  "untimed_experiment = \<lparr>exp_result = Some bare_result, exp_hypothesis = plain_hypothesis\<rparr>"

definition example_str :: "json \<Rightarrow> string" where
  "example_str v = (case v of JStr s \<Rightarrow> s | _ \<Rightarrow> ''None'')"

definition no_insights :: "result \<Rightarrow> hypothesis \<Rightarrow> comparison \<Rightarrow> py_error + string list" where
  "no_insights r h c = Inr []"

definition no_recommendations :: "result \<Rightarrow> hypothesis \<Rightarrow> string list \<Rightarrow> py_error + string list" where
  "no_recommendations r h found = Inr []"


section \<open>engineer.Engineer: running the subprocess\<close>

text \<open>
  What the operating system gives back to \<^verbatim>\<open>_execute_windows\<close>: the subprocess ran to
  its end within the time limit (its stdout and stderr, and the difference of the two memory
  samples in MB), \<^verbatim>\<open>communicate\<close> raised \<^verbatim>\<open>TimeoutExpired\<close>, or launching raised an
  exception with the given message.
\<close>

datatype process_outcome =
    Communicated string string real
  | TimeoutExpired
  | Raised string

text \<open>
  The dict \<^verbatim>\<open>_execute_windows\<close> returns. Python's \<^verbatim>\<open>None\<close> is \<open>JNull\<close>; a message or
  the raw stdout is a \<open>JStr\<close>.
\<close>

record execution_result =
  ex_success :: bool
  ex_output :: json
  ex_error :: json
  ex_stdout :: string
  ex_stderr :: string
  resource_usage :: "string \<rightharpoonup> real"

definition newline :: char where
  "newline = CHR 0x0A"

text \<open>\<^verbatim>\<open>stdout.strip().split('\n')[-1]\<close>; the list \<^verbatim>\<open>split\<close> returns is never empty.\<close>

definition final_line :: "string \<Rightarrow> string" where
  "final_line stdout = last (split_on newline (strip stdout))"

text \<open>
  \<^verbatim>\<open>_execute_windows\<close> after the subprocess has been launched. \<open>json_loads\<close> is
  \<^verbatim>\<open>json.loads\<close>, \<open>None\<close> when it raises; \<open>fmt_1f\<close> and \<open>str_int\<close> are the
  \<^verbatim>\<open>:.1f\<close> and plain formatting of f-strings. Calling \<^verbatim>\<open>get\<close> on a parsed value that is
  not a dict raises, and the bare \<^verbatim>\<open>except\<close> takes that as it takes a parse failure.
\<close>

definition execute_windows ::
  "config \<Rightarrow> (string \<Rightarrow> json option) \<Rightarrow> (real \<Rightarrow> string) \<Rightarrow> (int \<Rightarrow> string)
     \<Rightarrow> process_outcome \<Rightarrow> execution_result"
where
  "execute_windows cfg json_loads fmt_1f str_int outcome =
     (let result = \<lparr>ex_success = False, ex_output = JNull, ex_error = JNull, ex_stdout = [],
                     ex_stderr = [], resource_usage = Map.empty\<rparr>
      in case outcome of
           Raised message \<Rightarrow> result\<lparr>ex_error := JStr (''Execution failed: '' @ message)\<rparr>
         | TimeoutExpired \<Rightarrow>
             result\<lparr>ex_error :=
                      JStr (''Execution timeout ('' @ str_int (MAX_EXECUTION_TIME cfg) @ ''s)'')\<rparr>
         | Communicated stdout stderr memory_used \<Rightarrow>
             if memory_used > MAX_MEMORY_MB cfg then
               result\<lparr>ex_error :=
                        JStr (''Memory limit exceeded: '' @ fmt_1f memory_used @ ''MB'')\<rparr>
             else
               (let result = result\<lparr>ex_stdout := take (MAX_OUTPUT_SIZE cfg) stdout,
                                     ex_stderr := take (MAX_OUTPUT_SIZE cfg) stderr,
                                     resource_usage := [''memory_mb'' \<mapsto> memory_used]\<rparr>
                in if stdout \<noteq> [] then
                     (case json_loads (final_line stdout) of
                        Some (JObj output_data) \<Rightarrow>
                          result\<lparr>ex_output := dict_get output_data ''output'',
                                  ex_error := dict_get output_data ''error'',
                                  ex_success := \<not> truthy (dict_get output_data ''error'')\<rparr>
                      | _ \<Rightarrow> result\<lparr>ex_output := JStr stdout, ex_success := True\<rparr>)
                   else result))"

text \<open>
  A run of the harness whose user code raised an exception with an empty message: the
  harness prints \<^verbatim>\<open>str(e)\<close>, the empty string, as the error. \<open>harness_loads\<close> is
  \<^verbatim>\<open>json.loads\<close> on that line.
\<close>

definition harness_line :: string where
  "harness_line = ''{\"output\": null, \"error\": \"\", \"timing\": {\"total\": 0.5}}''"

definition harness_loads :: "string \<Rightarrow> json option" where
  "harness_loads s =
     (if s = harness_line
      then Some (JObj [(''output'', JNull), (''error'', JStr []),
                       (''timing'', JObj [(''total'', JFloat 0.5)])])
      else None)"

definition harness_stdout :: string where
  "harness_stdout = ''starting'' @ [newline] @ harness_line @ [newline]"


text \<open>Stand-ins for the two number formats, which that run does not reach.\<close>

definition example_fmt_1f :: "real \<Rightarrow> string" where
  "example_fmt_1f x = ''0.0''"

definition example_str_int :: "int \<Rightarrow> string" where
  "example_str_int n = ''30''"


section \<open>researcher.Researcher: the mutation generator\<close>

definition mutate_code :: "string \<Rightarrow> string" where
  "mutate_code original_code =
     (if original_code = [] then ''# Mutation of previous successful approach''
      else ''# Mutated version'' @ [newline] @ original_code @ [newline]
             @ ''# TODO: Apply mutations here'')"

record mutation =
  mutation_type :: string
  mutation_description :: string

text \<open>
  \<^verbatim>\<open>_generate_mutations\<close>. \<open>choice\<close> is the index that \<^verbatim>\<open>random.choice\<close> draws in the
  list of successful experiments (below its length); \<open>now\<close> is the clock reading.
\<close>

definition successful_experiments :: "experiment_record list \<Rightarrow> experiment_record list" where
  "successful_experiments recent_experiments =
     filter (\<lambda>e. case exp_result e of None \<Rightarrow> False | Some r \<Rightarrow> success r) recent_experiments"

definition generate_mutations :: "int \<Rightarrow> nat \<Rightarrow> experiment_record list \<Rightarrow> hypothesis list" where
  "generate_mutations now choice recent_experiments =
     (let successful = successful_experiments recent_experiments
      in if successful = [] then []
         else
           let base_exp = successful ! choice;
               base_hypothesis = exp_hypothesis base_exp;
               mutations =
                 [\<lparr>mutation_type = ''parameter_change'',
                   mutation_description =
                     ''Modify parameters in '' @ description base_hypothesis\<rparr>,
                  \<lparr>mutation_type = ''combination'',
                   mutation_description =
                     ''Combine '' @ description base_hypothesis @ '' with new approach''\<rparr>,
                  \<lparr>mutation_type = ''extension'',
                   mutation_description =
                     ''Extend '' @ description base_hypothesis @ '' to handle edge cases''\<rparr>]
           in map (\<lambda>m.
                    \<lparr>hyp_timestamp = now,
                     source = ''mutation'',
                     description = mutation_description m,
                     approach =
                       Some (mutation_type m @ '' of ''
                             @ (case approach base_hypothesis of
                                  None \<Rightarrow> ''previous approach''
                                | Some a \<Rightarrow> a)),
                     code_sketch =
                       Some (mutate_code (case code_sketch base_hypothesis of
                                            None \<Rightarrow> []
                                          | Some c \<Rightarrow> c)),
                     expected_outcome = Some ''Improved upon previous success'',
                     hyp_metrics =
                       Some (case hyp_metrics base_hypothesis of
                               None \<Rightarrow> [''performance'']
                             | Some ms \<Rightarrow> ms)\<rparr>)
                (take 1 mutations))"

text \<open>Step 3 of \<^verbatim>\<open>generate_hypotheses\<close>: the mutations added to the pool of a round.\<close>

definition mutation_hypotheses :: "int \<Rightarrow> nat \<Rightarrow> experiment_record list \<Rightarrow> hypothesis list" where
  "mutation_hypotheses now choice recent_experiments =
     (if recent_experiments \<noteq> [] then generate_mutations now choice recent_experiments else [])"

text \<open>Two successful experiments, the newest first, as \<^verbatim>\<open>get_recent_experiments\<close> lists them.\<close>

definition sort_hypothesis :: hypothesis where
  "sort_hypothesis =
     \<lparr>hyp_timestamp = 200, source = ''template'', description = ''Use caching in bubble sort'',
      approach = Some ''Template-based approach for optimization'', code_sketch = None,
      expected_outcome = Some ''Improved performance or new insights'',
      hyp_metrics = Some [''execution_time'', ''accuracy'', ''complexity'']\<rparr>"

definition newest_experiment :: experiment_record where
  "newest_experiment = \<lparr>exp_result = Some bare_result, exp_hypothesis = sort_hypothesis\<rparr>"

definition oldest_experiment :: experiment_record where
  "oldest_experiment = \<lparr>exp_result = Some bare_result, exp_hypothesis = plain_hypothesis\<rparr>"


section \<open>Properties of the insight store\<close>

subsection \<open>Sorting and capacity\<close>

lemma mset_sort_reverse: "mset (sort_reverse key xs) = mset xs"
  by (simp add: sort_reverse_def)

lemma length_sort_reverse: "length (sort_reverse key xs) = length xs"
  by (simp add: sort_reverse_def)

lemma sort_reverse_descending:
  "sorted_wrt (\<lambda>a b. key b \<le> key a) (sort_reverse key xs)"
proof -
  have "sorted (map key (sort_key key (rev xs)))" by simp
  then have "sorted_wrt (\<lambda>a b. key a \<le> key b) (sort_key key (rev xs))"
    by (simp add: sorted_map)
  then show ?thesis
    unfolding sort_reverse_def by (simp add: sorted_wrt_rev)
qed

lemma take_sort_reverse_highest:
  assumes "r \<in># mset xs - mset (take n (sort_reverse key xs))"
    and "k \<in> set (take n (sort_reverse key xs))"
  shows "key r \<le> key k"
proof -
  let ?s = "sort_reverse key xs"
  have "mset xs = mset (take n ?s) + mset (drop n ?s)"
    by (metis append_take_drop_id mset_append mset_sort_reverse)
  then have "mset xs - mset (take n ?s) = mset (drop n ?s)" by simp
  with assms(1) have r: "r \<in> set (drop n ?s)" by simp
  have "sorted_wrt (\<lambda>a b. key b \<le> key a) (take n ?s @ drop n ?s)"
    using sort_reverse_descending [of key xs] by simp
  then show ?thesis
    using r assms(2) unfolding sorted_wrt_append by blast
qed

lemma length_add_insight:
  "length insights \<le> MAX_INSIGHTS_STORED cfg \<Longrightarrow>
   length (add_insight cfg md5 now c insights) \<le> MAX_INSIGHTS_STORED cfg"
  by (simp add: add_insight_def Let_def length_sort_reverse)

lemma add_insights_Nil: "add_insights cfg md5 [] insights = insights"
  by (simp add: add_insights_def)

lemma add_insights_Cons:
  "add_insights cfg md5 ((now, c) # calls) insights =
     add_insights cfg md5 calls (add_insight cfg md5 now c insights)"
  by (simp add: add_insights_def)

lemma add_insights_snoc:
  "add_insights cfg md5 (calls @ [(now, c)]) insights =
     add_insight cfg md5 now c (add_insights cfg md5 calls insights)"
  by (simp add: add_insights_def)

lemma length_add_insights:
  "length insights \<le> MAX_INSIGHTS_STORED cfg \<Longrightarrow>
   length (add_insights cfg md5 calls insights) \<le> MAX_INSIGHTS_STORED cfg"
proof (induction calls arbitrary: insights)
  case Nil
  then show ?case by (simp add: add_insights_Nil)
next
  case (Cons call calls)
  obtain now c where call: "call = (now, c)" by (cases call)
  show ?case
    unfolding call add_insights_Cons
    by (rule Cons.IH) (rule length_add_insight [OF Cons.prems])
qed

lemma add_insight_evicts:
  assumes "\<not> is_duplicate_insight insights (new_insight_record md5 now c)"
    and "length (insights @ [new_insight_record md5 now c]) > MAX_INSIGHTS_STORED cfg"
  shows "add_insight cfg md5 now c insights =
           take (MAX_INSIGHTS_STORED cfg)
             (sort_reverse insight_key (insights @ [new_insight_record md5 now c]))"
  using assms by (simp add: add_insight_def Let_def)

text \<open>
  C1. Starting from a store that holds at most \<open>MAX_INSIGHTS_STORED\<close> insights, the store
  holds at most \<open>MAX_INSIGHTS_STORED\<close> insights after every call of a sequence of
  \<open>add_insight\<close> calls. Whenever a call evicts (the new insight is not a duplicate and the
  store would exceed the limit), what is kept is drawn from the stored insights and the new
  one, exactly one entry is removed, and every removed entry has a
  \<open>(relevance_score, timestamp)\<close> pair that is at most the pair of every entry kept.
\<close>

theorem add_insight_capacity_bound:
  assumes "length insights \<le> MAX_INSIGHTS_STORED cfg"
    and "n < length calls"
    and "calls ! n = (now, c)"
  shows
    "(let before = add_insights cfg md5 (take n calls) insights;
          after = add_insights cfg md5 (take (Suc n) calls) insights;
          appended = before @ [new_insight_record md5 now c]
      in after = add_insight cfg md5 now c before \<and>
         length after \<le> MAX_INSIGHTS_STORED cfg \<and>
         (\<not> is_duplicate_insight before (new_insight_record md5 now c) \<and>
          length appended > MAX_INSIGHTS_STORED cfg \<longrightarrow>
            length after = MAX_INSIGHTS_STORED cfg \<and>
            mset after \<subseteq># mset appended \<and>
            size (mset appended - mset after) = 1 \<and>
            (\<forall>r \<in># mset appended - mset after. \<forall>k \<in> set after.
               insight_key r \<le> insight_key k)))"
proof -
  define before where "before = add_insights cfg md5 (take n calls) insights"
  define after where "after = add_insights cfg md5 (take (Suc n) calls) insights"
  define new where "new = new_insight_record md5 now c"
  define appended where "appended = before @ [new]"
  have before_le: "length before \<le> MAX_INSIGHTS_STORED cfg"
    unfolding before_def by (rule length_add_insights [OF assms(1)])
  have "take (Suc n) calls = take n calls @ [(now, c)]"
    using assms(2,3) by (simp add: take_Suc_conv_app_nth)
  then have step: "after = add_insight cfg md5 now c before"
    unfolding after_def before_def by (simp add: add_insights_snoc)
  have after_le: "length after \<le> MAX_INSIGHTS_STORED cfg"
    unfolding step by (rule length_add_insight [OF before_le])
  have evict:
    "length after = MAX_INSIGHTS_STORED cfg \<and> mset after \<subseteq># mset appended \<and>
     size (mset appended - mset after) = 1 \<and>
     (\<forall>r \<in># mset appended - mset after. \<forall>k \<in> set after. insight_key r \<le> insight_key k)"
    if nodup: "\<not> is_duplicate_insight before new"
      and over: "length appended > MAX_INSIGHTS_STORED cfg"
  proof -
    let ?m = "MAX_INSIGHTS_STORED cfg"
    let ?s = "sort_reverse insight_key appended"
    have after_eq: "after = take ?m ?s"
      unfolding step appended_def new_def
      using nodup over unfolding appended_def new_def by (rule add_insight_evicts)
    have len_app: "length appended = Suc ?m"
      using before_le over by (simp add: appended_def)
    have len: "length after = ?m"
      unfolding after_eq using len_app by (simp add: length_sort_reverse)
    have split: "mset appended = mset after + mset (drop ?m ?s)"
      unfolding after_eq by (metis append_take_drop_id mset_append mset_sort_reverse)
    then have sub: "mset after \<subseteq># mset appended" by simp
    have "size (mset appended) = size (mset after) + size (mset appended - mset after)"
      using sub by (metis size_union subset_mset.add_diff_inverse)
    then have one: "size (mset appended - mset after) = 1"
      using len len_app by simp
    have low: "\<forall>r \<in># mset appended - mset after. \<forall>k \<in> set after. insight_key r \<le> insight_key k"
      unfolding after_eq using take_sort_reverse_highest [of _ appended ?m insight_key] by blast
    show ?thesis using len sub one low by blast
  qed
  show ?thesis
    using step after_le evict
    unfolding Let_def before_def [symmetric] after_def [symmetric] new_def [symmetric]
      appended_def [symmetric]
    by blast
qed

text \<open>The bound at work: a full store of capacity one takes a new insight and drops the older one.\<close>

theorem add_insight_capacity_bound_witness:
  "length [older_insight] \<le> MAX_INSIGHTS_STORED tiny_config \<and>
   add_insights tiny_config example_hexdigest [(5, ''alpha beta'')] [older_insight] =
     [new_insight_record example_hexdigest 5 ''alpha beta''] \<and>
   \<not> is_duplicate_insight [older_insight] (new_insight_record example_hexdigest 5 ''alpha beta'') \<and>
   mset [older_insight, new_insight_record example_hexdigest 5 ''alpha beta'']
     - mset [new_insight_record example_hexdigest 5 ''alpha beta''] = {#older_insight#} \<and>
   insight_key older_insight \<le> insight_key (new_insight_record example_hexdigest 5 ''alpha beta'')"
proof -
  have len: "length [older_insight] \<le> MAX_INSIGHTS_STORED tiny_config"
    by (simp add: tiny_config_def default_config_def)
  have nth: "[(5::int, ''alpha beta'')] ! 0 = (5, ''alpha beta'')" by simp
  have sim: "calculate_similarity (content older_insight) ''alpha beta'' = 0"
    unfolding older_insight_def by code_simp
  have nodup:
    "\<not> is_duplicate_insight [older_insight] (new_insight_record example_hexdigest 5 ''alpha beta'')"
    by (simp add: is_duplicate_insight_def new_insight_record_def sim)
  have k_old: "insight_key older_insight = (1, 0)"
    by (simp add: insight_key_def older_insight_def)
  have k_new: "insight_key (new_insight_record example_hexdigest 5 ''alpha beta'') = (1, 5)"
    by (simp add: insight_key_def new_insight_record_def)
  have key: "insight_key older_insight
               \<le> insight_key (new_insight_record example_hexdigest 5 ''alpha beta'')"
    by (simp add: k_old k_new less_eq_prod_def)
  have run: "add_insights tiny_config example_hexdigest [(5, ''alpha beta'')] [older_insight] =
               [new_insight_record example_hexdigest 5 ''alpha beta'']"
    using nodup
    by (simp add: add_insights_def add_insight_def Let_def tiny_config_def default_config_def
        sort_reverse_def k_old k_new less_eq_prod_def)
  from add_insight_capacity_bound [OF len, of 0 "[(5, ''alpha beta'')]" 5 "''alpha beta''"
      example_hexdigest]
  show ?thesis using len run nodup key by simp
qed


subsection \<open>Duplicates\<close>

lemma calculate_similarity_self:
  assumes "split (lower c) \<noteq> []"
  shows "calculate_similarity c c = 1"
proof -
  have "c \<noteq> []" using assms by (auto simp: split_def lower_def)
  moreover have "set (split (lower c)) \<noteq> {}" using assms by simp
  moreover have "card (set (split (lower c))) > 0"
    using assms by (simp add: card_gt_0_iff)
  ultimately show ?thesis by (simp add: calculate_similarity_def Let_def)
qed

lemma is_duplicate_insight_iff:
  "is_duplicate_insight insights new \<longleftrightarrow>
     (\<exists>e \<in> set insights. calculate_similarity (content e) (content new) > 0.9)"
  by (simp add: is_duplicate_insight_def list_ex_iff)

lemma add_insight_duplicate:
  "is_duplicate_insight insights (new_insight_record md5 now c) \<Longrightarrow>
   add_insight cfg md5 now c insights = insights"
  by (simp add: add_insight_def)

lemma content_new_insight_record [simp]: "content (new_insight_record md5 now c) = c"
  by (simp add: new_insight_record_def)

lemma length_add_insight_twice:
  assumes "split (lower c) \<noteq> []"
  shows "length (add_insight cfg md5 t2 c (add_insight cfg md5 t1 c insights)) =
         length (add_insight cfg md5 t1 c insights)"
proof (cases "is_duplicate_insight insights (new_insight_record md5 t1 c)")
  case True
  then have "is_duplicate_insight insights (new_insight_record md5 t2 c)"
    by (simp add: is_duplicate_insight_iff)
  with True show ?thesis by (simp add: add_insight_duplicate)
next
  case nodup: False
  let ?m = "MAX_INSIGHTS_STORED cfg"
  let ?first = "add_insight cfg md5 t1 c insights"
  show ?thesis
  proof (cases "length (insights @ [new_insight_record md5 t1 c]) > ?m")
    case False
    with nodup have first: "?first = insights @ [new_insight_record md5 t1 c]"
      by (simp add: add_insight_def Let_def)
    have "calculate_similarity (content (new_insight_record md5 t1 c)) c > 0.9"
      using calculate_similarity_self [OF assms] by simp
    then have "is_duplicate_insight ?first (new_insight_record md5 t2 c)"
      unfolding first is_duplicate_insight_iff by auto
    then show ?thesis by (simp add: add_insight_duplicate)
  next
    case True
    with nodup have len: "length ?first = ?m"
      by (simp add: add_insight_def Let_def length_sort_reverse)
    show ?thesis
    proof (cases "is_duplicate_insight ?first (new_insight_record md5 t2 c)")
      case True
      then show ?thesis by (simp add: add_insight_duplicate)
    next
      case False
      then have "add_insight cfg md5 t2 c ?first =
                   take ?m (sort_reverse insight_key (?first @ [new_insight_record md5 t2 c]))"
        using len by (simp add: add_insight_evicts)
      then show ?thesis using len by (simp add: length_sort_reverse)
    qed
  qed
qed

text \<open>
  C8. Inserting the same content twice leaves the number of stored insights after the
  second insert as it was after the first, and inserting a content whose word-set Jaccard
  similarity to a stored insight exceeds 0.9 leaves the store as it was: the duplicate is
  dropped. The content is the \<^verbatim>\<open>str()\<close> of a dict and so always has a word (it starts with
  a brace); that is the condition \<open>split (lower c) \<noteq> []\<close>.
\<close>

theorem duplicate_insight_dropped:
  "(split (lower c) \<noteq> [] \<longrightarrow>
      length (add_insight cfg md5 t2 c (add_insight cfg md5 t1 c insights)) =
      length (add_insight cfg md5 t1 c insights)) \<and>
   ((\<exists>existing \<in> set insights. calculate_similarity (content existing) c > 0.9) \<longrightarrow>
      add_insight cfg md5 now c insights = insights)"
  using length_add_insight_twice [of c cfg md5 t2 t1 insights]
    add_insight_duplicate [of insights md5 now c cfg]
  by (simp add: is_duplicate_insight_iff)

text \<open>
  The same finding inserted twice into the empty store, and a finding that differs from a
  stored one only in letter case.
\<close>

theorem duplicate_insight_dropped_witness:
  "split (lower ''{'key_findings': ['n: 5']}'') \<noteq> [] \<and>
   length (add_insight default_config example_hexdigest 9 ''{'key_findings': ['n: 5']}''
             (add_insight default_config example_hexdigest 3 ''{'key_findings': ['n: 5']}'' [])) =
   length (add_insight default_config example_hexdigest 3 ''{'key_findings': ['n: 5']}'' []) \<and>
   (\<exists>existing \<in> set [older_insight].
      calculate_similarity (content existing) ''{'Key_Findings': ['N: 5']}'' > 0.9) \<and>
   add_insight default_config example_hexdigest 7 ''{'Key_Findings': ['N: 5']}'' [older_insight] =
     [older_insight]"
proof -
  have words: "split (lower ''{'key_findings': ['n: 5']}'') \<noteq> []"
    by (simp add: split_def lower_def lower_char_def isspace_def)
  have "calculate_similarity (content older_insight) ''{'Key_Findings': ['N: 5']}'' = 1"
    unfolding older_insight_def by code_simp
  then have similar:
    "\<exists>existing \<in> set [older_insight].
       calculate_similarity (content existing) ''{'Key_Findings': ['N: 5']}'' > 0.9"
    by simp
  note first = duplicate_insight_dropped [where c = "''{'key_findings': ['n: 5']}''"
      and cfg = default_config and ?md5.0 = example_hexdigest and ?t1.0 = 3 and ?t2.0 = 9
      and insights = "[]"]
  note second = duplicate_insight_dropped [where c = "''{'Key_Findings': ['N: 5']}''"
      and cfg = default_config and ?md5.0 = example_hexdigest and now = 7
      and insights = "[older_insight]"]
  from first second
  show ?thesis using words similar by blast
qed


subsection \<open>Relevance decay\<close>

lemma length_update_relevance_scores [simp]:
  "length (update_relevance_scores clock insights) = length insights"
  by (simp add: update_relevance_scores_def)

lemma nth_update_relevance_scores:
  "i < length insights \<Longrightarrow>
   update_relevance_scores clock insights ! i =
     (insights ! i)\<lparr>relevance_score :=
        age_factor (clock i) (insights ! i) * usage_factor (insights ! i)\<rparr>"
  by (simp add: update_relevance_scores_def nth_enumerate_eq)

lemma days_old_by_age:
  "now_b - timestamp b \<le> now_a - timestamp a \<Longrightarrow> days_old now_b b \<le> days_old now_a a"
  unfolding days_old_def microseconds_per_day_def by (intro zdiv_mono1) simp_all

lemma age_factor_by_age:
  assumes "now_b - timestamp b \<le> now_a - timestamp a"
  shows "age_factor now_a a \<le> age_factor now_b b"
proof -
  have "real_of_int (days_old now_b b) / 7 \<le> real_of_int (days_old now_a a) / 7"
    using days_old_by_age [OF assms] by simp
  then show ?thesis
    unfolding age_factor_def by (intro powr_mono') simp_all
qed

text \<open>
  Usage counts start at zero and are only ever incremented, so they are never negative in
  a store built by \<open>add_insight\<close> and \<open>get_relevant_insights\<close>.
\<close>

lemma add_insight_usage_count:
  assumes "\<forall>x \<in> set insights. 0 \<le> usage_count x"
  shows "\<forall>x \<in> set (add_insight cfg md5 now c insights). 0 \<le> usage_count x"
proof -
  have "set (add_insight cfg md5 now c insights)
          \<subseteq> set insights \<union> {new_insight_record md5 now c}"
  proof (cases "\<not> is_duplicate_insight insights (new_insight_record md5 now c) \<and>
                 length (insights @ [new_insight_record md5 now c]) > MAX_INSIGHTS_STORED cfg")
    case True
    then have "add_insight cfg md5 now c insights =
                 take (MAX_INSIGHTS_STORED cfg)
                   (sort_reverse insight_key (insights @ [new_insight_record md5 now c]))"
      by (simp add: add_insight_evicts)
    moreover have "set (take (MAX_INSIGHTS_STORED cfg)
                     (sort_reverse insight_key (insights @ [new_insight_record md5 now c])))
                   \<subseteq> set (sort_reverse insight_key (insights @ [new_insight_record md5 now c]))"
      by (rule set_take_subset)
    moreover have "set (sort_reverse insight_key (insights @ [new_insight_record md5 now c])) =
                     set (insights @ [new_insight_record md5 now c])"
      by (metis mset_sort_reverse set_mset_mset)
    ultimately show ?thesis by auto
  next
    case False
    then show ?thesis by (auto simp: add_insight_def Let_def)
  qed
  moreover have "0 \<le> usage_count (new_insight_record md5 now c)"
    by (simp add: new_insight_record_def)
  ultimately show ?thesis using assms by auto
qed

text \<open>
  The score an update stores is \<open>0.95 powr (age_days / 7) * (1 + 0.1 * usage_count)\<close>, with
  \<open>age_days\<close> the whole days between the insight's timestamp and the clock reading taken
  for it. Of two insights with the same non-negative usage count, the one whose age at its
  own reading is at least the other's age gets a score at most the other's.
\<close>

lemma relevance_decay_by_age:
  assumes "i < length insights" and "j < length insights"
    and "usage_count (insights ! i) = usage_count (insights ! j)"
    and "0 \<le> usage_count (insights ! i)"
    and "clock j - timestamp (insights ! j) \<le> clock i - timestamp (insights ! i)"
  shows "relevance_score (update_relevance_scores clock insights ! i)
           \<le> relevance_score (update_relevance_scores clock insights ! j) \<and>
         relevance_score (update_relevance_scores clock insights ! i) =
           0.95 powr (real_of_int ((clock i - timestamp (insights ! i)) div microseconds_per_day) / 7)
             * (1 + 0.1 * real_of_int (usage_count (insights ! i)))"
proof -
  let ?a = "insights ! i" and ?b = "insights ! j"
  have uf: "usage_factor ?a = usage_factor ?b" "0 \<le> usage_factor ?a"
    using assms(3,4) by (simp_all add: usage_factor_def)
  have "age_factor (clock i) ?a * usage_factor ?a \<le> age_factor (clock j) ?b * usage_factor ?a"
    by (rule mult_right_mono [OF age_factor_by_age [OF assms(5)] uf(2)])
  then have "relevance_score (update_relevance_scores clock insights ! i)
               \<le> relevance_score (update_relevance_scores clock insights ! j)"
    using assms(1,2) uf(1) by (simp add: nth_update_relevance_scores)
  moreover have "relevance_score (update_relevance_scores clock insights ! i) =
      0.95 powr (real_of_int ((clock i - timestamp ?a) div microseconds_per_day) / 7)
        * (1 + 0.1 * real_of_int (usage_count ?a))"
    using assms(1)
    by (simp add: nth_update_relevance_scores age_factor_def usage_factor_def days_old_def
        mult.commute)
  ultimately show ?thesis by blast
qed

text \<open>
  Were the clock read once for the whole update, the older of two insights with the same
  usage count would never score above the newer one.
\<close>

lemma relevance_decay_one_reading:
  assumes "i < length insights" and "j < length insights"
    and "usage_count (insights ! i) = usage_count (insights ! j)"
    and "0 \<le> usage_count (insights ! i)"
    and "timestamp (insights ! i) \<le> timestamp (insights ! j)"
  shows "relevance_score (update_relevance_scores (\<lambda>k. now) insights ! i)
           \<le> relevance_score (update_relevance_scores (\<lambda>k. now) insights ! j)"
  using relevance_decay_by_age [OF assms(1-4), of "\<lambda>k. now"] assms(5) by simp

text \<open>
  C9. The claim (of two stored insights with the same usage count, the older one never has
  the higher relevance score after an update) fails on the code, which reads
  \<^verbatim>\<open>datetime.now()\<close> inside the loop, once per insight, instead of once per update. Here
  the older insight is scored first, at one microsecond short of seven days; five
  microseconds later the newer insight, stored one microsecond after the older one, is
  scored at seven days and three microseconds. The older insight is scored at six whole
  days, the newer one at seven, and the older insight ends with the higher score.
\<close>

theorem update_relevance_scores_day_boundary:
  "usage_count older_insight = usage_count newer_insight \<and>
   timestamp older_insight < timestamp newer_insight \<and>
   timestamp newer_insight \<le> boundary_clock 0 \<and>
   boundary_clock 0 \<le> boundary_clock 1 \<and>
   relevance_score (update_relevance_scores boundary_clock [older_insight, newer_insight] ! 0) =
     0.95 powr (6 / 7) \<and>
   relevance_score (update_relevance_scores boundary_clock [older_insight, newer_insight] ! 1) =
     0.95 powr (7 / 7) \<and>
   relevance_score (update_relevance_scores boundary_clock [older_insight, newer_insight] ! 1)
     < relevance_score (update_relevance_scores boundary_clock [older_insight, newer_insight] ! 0)"
proof -
  let ?upd = "update_relevance_scores boundary_clock [older_insight, newer_insight]"
  have d0: "days_old (boundary_clock 0) older_insight = 6"
    by (simp add: days_old_def boundary_clock_def older_insight_def microseconds_per_day_def)
  have d1: "days_old (boundary_clock 1) newer_insight = 7"
    by (simp add: days_old_def boundary_clock_def newer_insight_def microseconds_per_day_def)
  have u: "usage_factor older_insight = 1" "usage_factor newer_insight = 1"
    by (simp_all add: usage_factor_def older_insight_def newer_insight_def)
  have "?upd ! 0 = older_insight\<lparr>relevance_score :=
          age_factor (boundary_clock 0) older_insight * usage_factor older_insight\<rparr>"
    using nth_update_relevance_scores [of 0 "[older_insight, newer_insight]" boundary_clock]
    by simp
  then have r0: "relevance_score (?upd ! 0) = 0.95 powr (6 / 7)"
    unfolding age_factor_def d0 u by simp
  have "?upd ! 1 = newer_insight\<lparr>relevance_score :=
          age_factor (boundary_clock 1) newer_insight * usage_factor newer_insight\<rparr>"
    using nth_update_relevance_scores [of 1 "[older_insight, newer_insight]" boundary_clock]
    by simp
  then have r1: "relevance_score (?upd ! 1) = 0.95 powr (7 / 7)"
    unfolding age_factor_def d1 u by simp
  have "(0.95::real) powr (7 / 7) < 0.95 powr (6 / 7)"
    by (intro powr_less_mono') simp_all
  then have "relevance_score (?upd ! 1) < relevance_score (?upd ! 0)"
    unfolding r0 r1 .
  moreover have "usage_count older_insight = usage_count newer_insight"
    "timestamp older_insight < timestamp newer_insight"
    "timestamp newer_insight \<le> boundary_clock 0"
    "boundary_clock 0 \<le> boundary_clock 1"
    by (simp_all add: older_insight_def newer_insight_def boundary_clock_def
        microseconds_per_day_def)
  ultimately show ?thesis using r0 r1 by blast
qed


subsection \<open>Retrieval\<close>

lemma set_sort_reverse: "set (sort_reverse key xs) = set xs"
  by (simp add: sort_reverse_def)

lemma score_insights_fst:
  "fst (score_insights threshold query xs) =
     map (\<lambda>x. \<lparr>insight = content x,
                relevance = calculate_similarity (lower query) (lower (content x)),
                scored_timestamp = timestamp x\<rparr>)
       (filter (\<lambda>x. calculate_similarity (lower query) (lower (content x)) > threshold) xs)"
  by (induction xs) (simp_all add: Let_def case_prod_beta)

lemma score_insights_snd:
  "snd (score_insights threshold query xs) =
     map (\<lambda>x. if calculate_similarity (lower query) (lower (content x)) > threshold
               then x\<lparr>usage_count := usage_count x + 1\<rparr> else x) xs"
  by (induction xs) (simp_all add: Let_def case_prod_beta)

lemma slice_to_subset: "set (slice_to n xs) \<subseteq> set xs"
  by (auto simp: slice_to_def dest: in_set_takeD)

lemma length_slice_to: "0 \<le> n \<Longrightarrow> length (slice_to n xs) \<le> nat n"
  by (simp add: slice_to_def)

lemma sorted_wrt_slice_to: "sorted_wrt P xs \<Longrightarrow> sorted_wrt P (slice_to n xs)"
  by (simp add: slice_to_def)

lemma get_relevant_insights_unfold:
  "get_relevant_insights cfg clock query limit insights =
     (slice_to limit (sort_reverse relevance
        (fst (score_insights (INSIGHT_RELEVANCE_THRESHOLD cfg) query insights))),
      update_relevance_scores clock
        (snd (score_insights (INSIGHT_RELEVANCE_THRESHOLD cfg) query insights)))"
  by (cases insights)
     (simp_all add: get_relevant_insights_def Let_def split: prod.splits,
      simp_all add: slice_to_def sort_reverse_def update_relevance_scores_def)

lemma get_relevant_insights_usage_count:
  assumes "\<forall>x \<in> set insights. 0 \<le> usage_count x"
  shows "\<forall>x \<in> set (snd (get_relevant_insights cfg clock query limit insights)).
           0 \<le> usage_count x"
proof
  fix y
  let ?counted = "snd (score_insights (INSIGHT_RELEVANCE_THRESHOLD cfg) query insights)"
  assume "y \<in> set (snd (get_relevant_insights cfg clock query limit insights))"
  then have "y \<in> set (update_relevance_scores clock ?counted)"
    by (simp add: get_relevant_insights_unfold)
  then obtain k where k: "k < length ?counted"
    and y: "y = update_relevance_scores clock ?counted ! k"
    by (auto simp: in_set_conv_nth update_relevance_scores_def)
  have len: "length ?counted = length insights" by (simp add: score_insights_snd)
  have "usage_count y = usage_count (?counted ! k)"
    unfolding y using k by (simp add: update_relevance_scores_def nth_enumerate_eq)
  moreover have "usage_count (?counted ! k) = usage_count (insights ! k) + 1 \<or>
                 usage_count (?counted ! k) = usage_count (insights ! k)"
    using k len by (simp add: score_insights_snd)
  moreover have "0 \<le> usage_count (insights ! k)"
    using assms k len by simp
  ultimately show "0 \<le> usage_count y" by auto
qed

text \<open>
  C5, as the code has it. For a non-negative limit, \<open>get_relevant_insights\<close> increments by
  one the usage count of every stored insight whose similarity to the query exceeds the
  relevance threshold, whether or not the insight survives the truncation to \<open>limit\<close>, and
  leaves every other usage count, and every id, timestamp and content, unchanged; it then
  recomputes every relevance score from the new usage counts, and returns at most \<open>limit\<close>
  results, sorted by relevance descending, each of them made from a stored insight whose
  similarity to the query exceeds the threshold.
\<close>

theorem get_relevant_insights_usage:
  assumes "0 \<le> limit"
  shows
    "(let returned = fst (get_relevant_insights cfg clock query limit insights);
          updated = snd (get_relevant_insights cfg clock query limit insights);
          similarity = (\<lambda>x. calculate_similarity (lower query) (lower (content x)))
      in length updated = length insights \<and>
         (\<forall>i < length insights.
            ins_id (updated ! i) = ins_id (insights ! i) \<and>
            timestamp (updated ! i) = timestamp (insights ! i) \<and>
            content (updated ! i) = content (insights ! i) \<and>
            usage_count (updated ! i) =
              (if similarity (insights ! i) > INSIGHT_RELEVANCE_THRESHOLD cfg
               then usage_count (insights ! i) + 1 else usage_count (insights ! i)) \<and>
            relevance_score (updated ! i) =
              age_factor (clock i) (updated ! i) * usage_factor (updated ! i)) \<and>
         length returned \<le> nat limit \<and>
         sorted_wrt (\<lambda>a b. relevance b \<le> relevance a) returned \<and>
         (\<forall>r \<in> set returned.
            relevance r > INSIGHT_RELEVANCE_THRESHOLD cfg \<and>
            (\<exists>x \<in> set insights.
               insight r = content x \<and> relevance r = similarity x \<and>
               scored_timestamp r = timestamp x)))"
proof -
  let ?thr = "INSIGHT_RELEVANCE_THRESHOLD cfg"
  let ?sim = "\<lambda>x. calculate_similarity (lower query) (lower (content x))"
  let ?scored = "fst (score_insights ?thr query insights)"
  let ?counted = "snd (score_insights ?thr query insights)"
  let ?returned = "fst (get_relevant_insights cfg clock query limit insights)"
  let ?updated = "snd (get_relevant_insights cfg clock query limit insights)"
  have ret: "?returned = slice_to limit (sort_reverse relevance ?scored)"
    and upd: "?updated = update_relevance_scores clock ?counted"
    by (simp_all add: get_relevant_insights_unfold)
  have len_counted: "length ?counted = length insights"
    by (simp add: score_insights_snd)
  have len: "length ?updated = length insights"
    by (simp add: upd len_counted)
  have each: "ins_id (?updated ! i) = ins_id (insights ! i) \<and>
            timestamp (?updated ! i) = timestamp (insights ! i) \<and>
            content (?updated ! i) = content (insights ! i) \<and>
            usage_count (?updated ! i) =
              (if ?sim (insights ! i) > ?thr
               then usage_count (insights ! i) + 1 else usage_count (insights ! i)) \<and>
            relevance_score (?updated ! i) =
              age_factor (clock i) (?updated ! i) * usage_factor (?updated ! i)"
    if "i < length insights" for i
  proof -
    have c: "?counted ! i = (if ?sim (insights ! i) > ?thr
               then (insights ! i)\<lparr>usage_count := usage_count (insights ! i) + 1\<rparr>
               else insights ! i)"
      using that by (simp add: score_insights_snd)
    have u: "?updated ! i = (?counted ! i)\<lparr>relevance_score :=
               age_factor (clock i) (?counted ! i) * usage_factor (?counted ! i)\<rparr>"
      unfolding upd using that len_counted by (simp add: nth_update_relevance_scores)
    show ?thesis
      unfolding u c by (simp add: age_factor_def days_old_def usage_factor_def)
  qed
  have bound: "length ?returned \<le> nat limit"
    unfolding ret by (rule length_slice_to [OF assms])
  have sorted: "sorted_wrt (\<lambda>a b. relevance b \<le> relevance a) ?returned"
    unfolding ret by (rule sorted_wrt_slice_to [OF sort_reverse_descending])
  have member: "relevance r > ?thr \<and>
      (\<exists>x \<in> set insights. insight r = content x \<and> relevance r = ?sim x \<and>
         scored_timestamp r = timestamp x)"
    if "r \<in> set ?returned" for r
  proof -
    have "set ?returned \<subseteq> set (sort_reverse relevance ?scored)"
      unfolding ret by (rule slice_to_subset)
    with that have "r \<in> set ?scored"
      by (auto simp: set_sort_reverse)
    then show ?thesis
      unfolding score_insights_fst by auto
  qed
  show ?thesis
    unfolding Let_def using len each bound sorted member by blast
qed

lemma finding_similarities:
  "calculate_similarity (lower finding_query) (lower (content finding_a)) = 1"
  "calculate_similarity (lower finding_query) (lower (content finding_b)) = 4 / 5"
  "calculate_similarity (content finding_a) (content finding_b) = 4 / 5"
  unfolding finding_query_def finding_a_def finding_b_def by code_simp+

text \<open>
  C5 as stated fails on the code: with two matching insights and a limit of one, the second
  insight is not returned, and its usage count is incremented all the same.
\<close>

theorem get_relevant_insights_usage_counterexample:
  "fst (get_relevant_insights default_config steady_clock finding_query 1 [finding_a, finding_b]) =
     [\<lparr>insight = content finding_a, relevance = 1, scored_timestamp = timestamp finding_a\<rparr>] \<and>
   content finding_b \<noteq> content finding_a \<and>
   usage_count finding_b = 0 \<and>
   usage_count
     (snd (get_relevant_insights default_config steady_clock finding_query 1
             [finding_a, finding_b]) ! 1) = 1"
proof -
  have thr: "INSIGHT_RELEVANCE_THRESHOLD default_config = 0.7"
    by (simp add: default_config_def)
  have scored: "score_insights 0.7 finding_query [finding_a, finding_b] =
      ([\<lparr>insight = content finding_a, relevance = 1, scored_timestamp = timestamp finding_a\<rparr>,
        \<lparr>insight = content finding_b, relevance = 4 / 5, scored_timestamp = timestamp finding_b\<rparr>],
       [finding_a\<lparr>usage_count := usage_count finding_a + 1\<rparr>,
        finding_b\<lparr>usage_count := usage_count finding_b + 1\<rparr>])"
    by (simp add: finding_similarities)
  have ret: "fst (get_relevant_insights default_config steady_clock finding_query 1
                    [finding_a, finding_b]) =
      [\<lparr>insight = content finding_a, relevance = 1, scored_timestamp = timestamp finding_a\<rparr>]"
    unfolding get_relevant_insights_unfold thr scored
    by (simp add: sort_reverse_def slice_to_def)
  have upd: "usage_count
     (snd (get_relevant_insights default_config steady_clock finding_query 1
             [finding_a, finding_b]) ! 1) = 1"
    unfolding get_relevant_insights_unfold thr scored
    by (simp add: nth_update_relevance_scores finding_b_def)
  have "content finding_b \<noteq> content finding_a" "usage_count finding_b = 0"
    by (simp_all add: finding_a_def finding_b_def)
  with ret upd show ?thesis by blast
qed

text \<open>The effect of that query on the two stored insights.\<close>

theorem get_relevant_insights_usage_witness:
  "(0::int) \<le> 1 \<and>
   length (snd (get_relevant_insights default_config steady_clock finding_query 1
                  [finding_a, finding_b])) = 2 \<and>
   usage_count (snd (get_relevant_insights default_config steady_clock finding_query 1
                       [finding_a, finding_b]) ! 0) = usage_count finding_a + 1 \<and>
   usage_count (snd (get_relevant_insights default_config steady_clock finding_query 1
                       [finding_a, finding_b]) ! 1) = usage_count finding_b + 1 \<and>
   length (fst (get_relevant_insights default_config steady_clock finding_query 1
                  [finding_a, finding_b])) \<le> 1"
proof -
  have limit: "(0::int) \<le> 1" by simp
  have thr: "INSIGHT_RELEVANCE_THRESHOLD default_config = 0.7"
    by (simp add: default_config_def)
  note effect = get_relevant_insights_usage [OF limit, of default_config steady_clock
      finding_query "[finding_a, finding_b]", unfolded Let_def thr]
  have i0: "(0::nat) < length [finding_a, finding_b]"
    and i1: "(1::nat) < length [finding_a, finding_b]" by simp_all
  from effect have len: "length (snd (get_relevant_insights default_config steady_clock
      finding_query 1 [finding_a, finding_b])) = 2" by simp
  from effect i0 have u0: "usage_count (snd (get_relevant_insights default_config steady_clock
      finding_query 1 [finding_a, finding_b]) ! 0) = usage_count finding_a + 1"
    using finding_similarities(1) by auto
  from effect i1 have u1: "usage_count (snd (get_relevant_insights default_config steady_clock
      finding_query 1 [finding_a, finding_b]) ! 1) = usage_count finding_b + 1"
    using finding_similarities(2) by auto
  from effect have b: "length (fst (get_relevant_insights default_config steady_clock
      finding_query 1 [finding_a, finding_b])) \<le> 1" by simp
  show ?thesis using limit len u0 u1 b by blast
qed


section \<open>Properties of the analyst\<close>

subsection \<open>The score\<close>

lemma calculate_score_sum:
  "calculate_score py_str result hypothesis =
     1 + (case metrics result ''execution_time'' of
            None \<Rightarrow> - 0.5
          | Some t \<Rightarrow> if t < 1 then 0.5 else if t > 10 then - 0.5 else 0)
       + (case metrics result ''memory_mb'' of
            None \<Rightarrow> - 0.3
          | Some m \<Rightarrow> if m < 100 then 0.3 else if m > 500 then - 0.3 else 0)
       + (if check_expected_outcomes py_str result hypothesis then 1 else 0)
       + (if is_novel_result result then 0.5 else 0)"
  by (simp add: calculate_score_def Let_def lt_inf_def gt_inf_def split: option.splits)

text \<open>
  C3. The score of a result is the base 1, plus 0.5 exactly when the execution time is
  below 1 and minus 0.5 exactly when it is above 10 (a missing time is infinite), plus 0.3
  exactly when the memory is below 100 and minus 0.3 exactly when it is above 500, plus the
  expected-outcome and novelty bonuses, and it is never negative. At an execution time of
  exactly 1 and a memory of exactly 500 neither bonus nor penalty applies; at 0.999 and
  500.001 the bonus of 0.5 and the penalty of 0.3 apply.
\<close>

theorem calculate_score_bonuses:
  "calculate_score py_str result hypothesis =
     1 + (case metrics result ''execution_time'' of
            None \<Rightarrow> - 0.5
          | Some t \<Rightarrow> if t < 1 then 0.5 else if t > 10 then - 0.5 else 0)
       + (case metrics result ''memory_mb'' of
            None \<Rightarrow> - 0.3
          | Some m \<Rightarrow> if m < 100 then 0.3 else if m > 500 then - 0.3 else 0)
       + (if check_expected_outcomes py_str result hypothesis then 1 else 0)
       + (if is_novel_result result then 0.5 else 0) \<and>
   0 \<le> calculate_score py_str result hypothesis \<and>
   (metrics result ''execution_time'' = Some 1 \<and> metrics result ''memory_mb'' = Some 500 \<longrightarrow>
      calculate_score py_str result hypothesis =
        1 + (if check_expected_outcomes py_str result hypothesis then 1 else 0)
          + (if is_novel_result result then 0.5 else 0)) \<and>
   (metrics result ''execution_time'' = Some 0.999 \<and> metrics result ''memory_mb'' = Some 500.001 \<longrightarrow>
      calculate_score py_str result hypothesis =
        1 + 0.5 - 0.3 + (if check_expected_outcomes py_str result hypothesis then 1 else 0)
          + (if is_novel_result result then 0.5 else 0))"
  by (simp add: calculate_score_sum split: option.splits)

text \<open>The score at the boundary values, for a result without outcome or novelty bonus.\<close>

theorem calculate_score_bonuses_witness:
  "calculate_score example_str (boundary_result 1 500) plain_hypothesis = 1 \<and>
   calculate_score example_str (boundary_result 0.999 500.001) plain_hypothesis = 1.2 \<and>
   calculate_score example_str (boundary_result 0.999 500) plain_hypothesis = 1.5"
proof -
  have flags: "\<not> check_expected_outcomes example_str (boundary_result t m) plain_hypothesis"
    "\<not> is_novel_result (boundary_result t m)" for t m
    by (simp_all add: check_expected_outcomes_def is_novel_result_def boundary_result_def
        plain_hypothesis_def example_str_def outcome_keywords_def lower_def lower_char_def)
  have m: "metrics (boundary_result t m) ''execution_time'' = Some t"
    "metrics (boundary_result t m) ''memory_mb'' = Some m" for t m
    by (simp_all add: boundary_result_def)
  from calculate_score_bonuses [of example_str "boundary_result 1 500" plain_hypothesis]
    calculate_score_bonuses [of example_str "boundary_result 0.999 500.001" plain_hypothesis]
    calculate_score_bonuses [of example_str "boundary_result 0.999 500" plain_hypothesis]
  show ?thesis by (simp add: flags m)
qed

text \<open>
  C10. When the metrics hold neither an execution time nor a memory entry, both default to
  infinity and both penalties apply: the score is \<open>max 0 (0.2 + expected-outcome bonus +
  novelty bonus)\<close>, which is \<open>1 - 0.5 - 0.3\<close> plus the two bonuses.
\<close>

theorem calculate_score_missing_metrics:
  assumes "metrics result ''execution_time'' = None" and "metrics result ''memory_mb'' = None"
  shows "calculate_score py_str result hypothesis =
           max 0 (0.2 + (if check_expected_outcomes py_str result hypothesis then 1 else 0)
                      + (if is_novel_result result then 0.5 else 0)) \<and>
         calculate_score py_str result hypothesis =
           1 - 0.5 - 0.3 + (if check_expected_outcomes py_str result hypothesis then 1 else 0)
                      + (if is_novel_result result then 0.5 else 0)"
  using assms by (simp add: calculate_score_sum)

text \<open>A successful result without metrics scores 0.2.\<close>

theorem calculate_score_missing_metrics_witness:
  "metrics bare_result ''execution_time'' = None \<and> metrics bare_result ''memory_mb'' = None \<and>
   calculate_score example_str bare_result plain_hypothesis = 0.2"
proof -
  have none: "metrics bare_result ''execution_time'' = None" "metrics bare_result ''memory_mb'' = None"
    by (simp_all add: bare_result_def)
  have flags: "\<not> check_expected_outcomes example_str bare_result plain_hypothesis"
    "\<not> is_novel_result bare_result"
    by (simp_all add: check_expected_outcomes_def is_novel_result_def bare_result_def
        plain_hypothesis_def example_str_def outcome_keywords_def lower_def lower_char_def)
  from calculate_score_missing_metrics [OF none, of example_str plain_hypothesis]
  show ?thesis using none flags by simp
qed


subsection \<open>The comparison with recent experiments\<close>

lemma comparable_times_Nil [simp]: "comparable_times [] = []"
  by (simp add: comparable_times_def)

lemma comparable_times_Cons:
  "comparable_times (e # es) =
     (case exp_result e of
        None \<Rightarrow> comparable_times es
      | Some r \<Rightarrow>
          if success r
          then (case metrics r ''execution_time'' of
                  None \<Rightarrow> comparable_times es
                | Some t \<Rightarrow> t # comparable_times es)
          else comparable_times es)"
  by (simp add: comparable_times_def split: option.splits)

lemma compare_loop_times:
  "fst (compare_loop threshold current es (ts, c)) = ts @ comparable_times es"
  by (induction es arbitrary: ts c) (simp_all add: comparable_times_Cons split: option.splits)

lemma compare_loop_better:
  "better_than (snd (compare_loop threshold current es (ts, c))) =
     better_than c
       + length (filter (\<lambda>p. lt_inf current (p * (1 - threshold))) (comparable_times es))"
  by (induction es arbitrary: ts c) (simp_all add: comparable_times_Cons split: option.splits)

lemma compare_loop_rank:
  "performance_rank (snd (compare_loop threshold current es (ts, c))) = performance_rank c \<and>
   is_improvement (snd (compare_loop threshold current es (ts, c))) = is_improvement c"
  by (induction es arbitrary: ts c) (simp_all add: comparable_times_Cons split: option.splits)

lemma index_of_Cons:
  "index_of x (y # ys) = (if y = x then 0 else Suc (index_of x ys))"
  by (simp add: index_of_def)

lemma index_of_nth:
  "x \<in> set xs \<Longrightarrow>
   index_of x xs < length xs \<and> xs ! index_of x xs = x \<and> (\<forall>i < index_of x xs. xs ! i \<noteq> x)"
proof (induction xs)
  case Nil
  then show ?case by simp
next
  case (Cons y ys)
  show ?case
  proof (cases "y = x")
    case True
    then show ?thesis by (simp add: index_of_Cons)
  next
    case False
    with Cons have ih: "index_of x ys < length ys" "ys ! index_of x ys = x"
      "\<forall>i < index_of x ys. ys ! i \<noteq> x" by auto
    have "(y # ys) ! i \<noteq> x" if "i < Suc (index_of x ys)" for i
      using that False ih(3) by (cases i) auto
    with False ih(1,2) show ?thesis by (simp add: index_of_Cons)
  qed
qed

lemma sorted_before_first_occurrence:
  assumes "sorted xs" and "k < length xs" and "\<forall>i < k. xs ! i \<noteq> xs ! k" and "i < k"
  shows "xs ! i < xs ! k"
proof -
  have "xs ! i \<le> xs ! k" using assms(1,2,4) by (simp add: sorted_nth_mono)
  with assms(3,4) show ?thesis by (simp add: order.strict_iff_order)
qed

lemma compare_with_recent_ranked:
  assumes "metrics result ''execution_time'' = Some current"
    and "comparable_times recent_experiments \<noteq> []"
  shows
    "(let comparison = compare_with_recent cfg result recent_experiments;
          sorted_times = sort (comparable_times recent_experiments @ [current]);
          rank = performance_rank comparison
      in 1 \<le> rank \<and> rank \<le> length sorted_times \<and>
         sorted_times ! (rank - 1) = current \<and>
         (\<forall>i < rank - 1. sorted_times ! i < current) \<and>
         length sorted_times = length (comparable_times recent_experiments) + 1 \<and>
         (is_improvement comparison \<longleftrightarrow> rank \<le> length sorted_times div 2) \<and>
         better_than comparison =
           length (filter (\<lambda>peer. current < peer * (1 - MIN_IMPROVEMENT_THRESHOLD cfg))
                     (comparable_times recent_experiments)))"
proof -
  let ?thr = "MIN_IMPROVEMENT_THRESHOLD cfg"
  let ?c0 = "\<lparr>better_than = 0, worse_than = 0, similar_to = 0, performance_rank = 0,
              is_improvement = False\<rparr>"
  let ?loop = "compare_loop ?thr (Some current) recent_experiments ([], ?c0)"
  let ?peers = "comparable_times recent_experiments"
  let ?sorted = "sort (?peers @ [current])"
  let ?rank = "index_of current ?sorted + 1"
  have nonempty: "recent_experiments \<noteq> []" using assms(2) by auto
  have times: "fst ?loop = ?peers" by (simp add: compare_loop_times)
  have better: "better_than (snd ?loop) =
      length (filter (\<lambda>peer. current < peer * (1 - ?thr)) ?peers)"
    by (simp add: compare_loop_better lt_inf_def)
  have cmp: "compare_with_recent cfg result recent_experiments =
      (snd ?loop)\<lparr>performance_rank := ?rank,
                   is_improvement := ?rank \<le> length ?sorted div 2\<rparr>"
    using nonempty assms times
    by (simp add: compare_with_recent_def Let_def case_prod_beta)
  have "current \<in> set ?sorted" by simp
  from index_of_nth [OF this]
  have idx: "index_of current ?sorted < length ?sorted"
    "?sorted ! index_of current ?sorted = current"
    "\<forall>i < index_of current ?sorted. ?sorted ! i \<noteq> current" by auto
  have below: "\<forall>i < index_of current ?sorted. ?sorted ! i < current"
    using sorted_before_first_occurrence [of ?sorted "index_of current ?sorted"] idx
    by auto
  show ?thesis
    unfolding Let_def cmp using idx below better by simp
qed

lemma compare_with_recent_unranked:
  assumes "metrics result ''execution_time'' = None \<or> comparable_times recent_experiments = []"
  shows "performance_rank (compare_with_recent cfg result recent_experiments) = 0 \<and>
         \<not> is_improvement (compare_with_recent cfg result recent_experiments)"
proof -
  let ?c0 = "\<lparr>better_than = 0, worse_than = 0, similar_to = 0, performance_rank = 0,
              is_improvement = False\<rparr>"
  let ?loop = "compare_loop (MIN_IMPROVEMENT_THRESHOLD cfg) (metrics result ''execution_time'')
                 recent_experiments ([], ?c0)"
  have keep: "performance_rank (snd ?loop) = 0" "\<not> is_improvement (snd ?loop)"
    using compare_loop_rank [of "MIN_IMPROVEMENT_THRESHOLD cfg" "metrics result ''execution_time''"
        recent_experiments "[]" ?c0] by simp_all
  have times: "fst ?loop = comparable_times recent_experiments"
    by (simp add: compare_loop_times)
  have "compare_with_recent cfg result recent_experiments = ?c0 \<or>
        compare_with_recent cfg result recent_experiments = snd ?loop"
    using assms times
    by (auto simp: compare_with_recent_def Let_def case_prod_beta split: option.splits)
  with keep show ?thesis by auto
qed

text \<open>
  C4, as the code has it. When the current result has a finite execution time and at least
  one recent successful experiment has one, \<open>performance_rank\<close> is the 1-based position of
  the first occurrence of the current time among the comparable times and the current time,
  sorted ascending; \<open>is_improvement\<close> holds exactly when the rank is at most half (rounded
  down) of the number of those times; and \<open>better_than\<close> counts the peers that the current
  time undercuts by more than the threshold. Otherwise the rank stays 0 and
  \<open>is_improvement\<close> stays false.
\<close>

theorem compare_with_recent_rank:
  "(metrics result ''execution_time'' = Some current \<and>
    comparable_times recent_experiments \<noteq> [] \<longrightarrow>
      (let comparison = compare_with_recent cfg result recent_experiments;
           sorted_times = sort (comparable_times recent_experiments @ [current]);
           rank = performance_rank comparison
       in 1 \<le> rank \<and> rank \<le> length sorted_times \<and>
          sorted_times ! (rank - 1) = current \<and>
          (\<forall>i < rank - 1. sorted_times ! i < current) \<and>
          length sorted_times = length (comparable_times recent_experiments) + 1 \<and>
          (is_improvement comparison \<longleftrightarrow> rank \<le> length sorted_times div 2) \<and>
          better_than comparison =
            length (filter (\<lambda>peer. current < peer * (1 - MIN_IMPROVEMENT_THRESHOLD cfg))
                      (comparable_times recent_experiments)))) \<and>
   (metrics result ''execution_time'' = None \<or> comparable_times recent_experiments = [] \<longrightarrow>
      performance_rank (compare_with_recent cfg result recent_experiments) = 0 \<and>
      \<not> is_improvement (compare_with_recent cfg result recent_experiments))"
  using compare_with_recent_ranked [of result current recent_experiments cfg]
    compare_with_recent_unranked [of result recent_experiments cfg]
  by blast

lemma three_peers:
  "comparable_times [timed_experiment 2, timed_experiment 3, timed_experiment 5] = [2, 3, 5]"
  by (simp add: comparable_times_Cons timed_experiment_def timed_result_def)

text \<open>
  The example of the specification: recent times 2, 3 and 5, threshold 0.05, current
  time 1.
\<close>

theorem compare_with_recent_rank_witness:
  "metrics (timed_result 1) ''execution_time'' = Some 1 \<and>
   comparable_times [timed_experiment 2, timed_experiment 3, timed_experiment 5] = [2, 3, 5] \<and>
   MIN_IMPROVEMENT_THRESHOLD default_config = 0.05 \<and>
   performance_rank (compare_with_recent default_config (timed_result 1)
      [timed_experiment 2, timed_experiment 3, timed_experiment 5]) = 1 \<and>
   better_than (compare_with_recent default_config (timed_result 1)
      [timed_experiment 2, timed_experiment 3, timed_experiment 5]) = 3 \<and>
   is_improvement (compare_with_recent default_config (timed_result 1)
      [timed_experiment 2, timed_experiment 3, timed_experiment 5]) \<and>
   performance_rank (compare_with_recent default_config (timed_result 1) [untimed_experiment]) = 0"
proof -
  let ?recent = "[timed_experiment 2, timed_experiment 3, timed_experiment 5]"
  let ?c = "compare_with_recent default_config (timed_result 1) ?recent"
  have cur: "metrics (timed_result 1) ''execution_time'' = Some 1"
    by (simp add: timed_result_def)
  have thr: "MIN_IMPROVEMENT_THRESHOLD default_config = 0.05"
    by (simp add: default_config_def)
  have none: "comparable_times [untimed_experiment] = []"
    by (simp add: comparable_times_Cons untimed_experiment_def bare_result_def)
  have srt: "sort ([2, 3, 5] @ [1::real]) = [1, 2, 3, 5]" by simp
  note ranked = compare_with_recent_rank [of "timed_result 1" 1 ?recent default_config,
      unfolded Let_def three_peers thr srt]
  note unranked = compare_with_recent_rank [of "timed_result 1" 1 "[untimed_experiment]"
      default_config]
  from ranked cur have facts: "1 \<le> performance_rank ?c"
    "[1, 2, 3, 5::real] ! (performance_rank ?c - 1) = 1"
    "performance_rank ?c \<le> length [1, 2, 3, 5::real]"
    "is_improvement ?c \<longleftrightarrow> performance_rank ?c \<le> length [1, 2, 3, 5::real] div 2"
    "better_than ?c = length (filter (\<lambda>peer. 1 < peer * (1 - 0.05)) [2, 3, 5::real])"
    by simp_all
  have rank: "performance_rank ?c = 1"
  proof (rule ccontr)
    assume "performance_rank ?c \<noteq> 1"
    with facts(1,3) have "performance_rank ?c - 1 \<in> {1, 2, 3}" by auto
    with facts(2) show False by auto
  qed
  from unranked none have zero:
    "performance_rank (compare_with_recent default_config (timed_result 1) [untimed_experiment]) = 0"
    by simp
  show ?thesis using cur three_peers thr rank facts(4,5) zero by simp
qed

text \<open>
  C4 as stated fails on the code: when the only recent experiment succeeded without an
  execution time, the current time 1 is first among the comparable times, and the rank the
  code reports is 0.
\<close>

theorem compare_with_recent_rank_counterexample:
  "success (timed_result 1) \<and>
   metrics (timed_result 1) ''execution_time'' = Some 1 \<and>
   comparable_times [untimed_experiment] @ [1] = [1] \<and>
   index_of 1 (sort (comparable_times [untimed_experiment] @ [1])) + 1 = 1 \<and>
   performance_rank (compare_with_recent default_config (timed_result 1) [untimed_experiment]) = 0"
  by (simp add: comparable_times_Cons untimed_experiment_def bare_result_def timed_result_def
      index_of_def compare_with_recent_def Let_def)


subsection \<open>The analysis of failures\<close>

lemma starts_with_iff: "starts_with needle hay \<longleftrightarrow> (\<exists>ss. hay = needle @ ss)"
  by (induction needle hay rule: starts_with.induct) auto

lemma contains_iff: "contains needle hay \<longleftrightarrow> (\<exists>ps ss. hay = ps @ needle @ ss)"
proof (induction hay)
  case Nil
  then show ?case by auto
next
  case (Cons h hs)
  have "(\<exists>ps ss. h # hs = ps @ needle @ ss) \<longleftrightarrow>
        (\<exists>ss. h # hs = needle @ ss) \<or> (\<exists>ps ss. hs = ps @ needle @ ss)"
  proof
    assume "\<exists>ps ss. h # hs = ps @ needle @ ss"
    then obtain ps ss where eq: "h # hs = ps @ needle @ ss" by blast
    show "(\<exists>ss. h # hs = needle @ ss) \<or> (\<exists>ps ss. hs = ps @ needle @ ss)"
    proof (cases ps)
      case Nil
      with eq show ?thesis by auto
    next
      case (Cons p ps')
      with eq have "hs = ps' @ needle @ ss" by simp
      then show ?thesis by blast
    qed
  next
    assume "(\<exists>ss. h # hs = needle @ ss) \<or> (\<exists>ps ss. hs = ps @ needle @ ss)"
    then show "\<exists>ps ss. h # hs = ps @ needle @ ss"
    proof
      assume "\<exists>ss. h # hs = needle @ ss"
      then obtain ss where "h # hs = [] @ needle @ ss" by auto
      then show ?thesis by blast
    next
      assume "\<exists>ps ss. hs = ps @ needle @ ss"
      then obtain ps ss where "h # hs = (h # ps) @ needle @ ss" by auto
      then show ?thesis by blast
    qed
  qed
  with Cons show ?case by (simp add: starts_with_iff)
qed

lemma analyze_result_failure_field:
  "analyze_result cfg py_str extract recommend now result hypothesis recent = Inr a \<Longrightarrow>
   (an_failure_analysis a \<noteq> None \<longleftrightarrow> \<not> success result)"
  by (auto simp: analyze_result_def Let_def split: if_splits sum.splits)

lemma analyze_result_failed_text:
  assumes "\<not> success result"
    and "error result = Some (JStr error_text) \<or> (error result = None \<and> error_text = [])"
  shows "\<exists>a. analyze_result cfg py_str extract recommend now result hypothesis recent = Inr a \<and>
             an_failure_analysis a = Some (classify_error error_text)"
  using assms by (auto simp: analyze_result_def analyze_failure_def Let_def)

text \<open>
  An analysis that \<open>analyze_result\<close> returns has a failure analysis exactly when the
  result is not successful. For a failed result whose error is a text (the empty text when
  the entry is missing) an analysis is returned, and its failure analysis is the fixed triple
  of the first of timeout, memory, syntax-or-name that occurs as a substring of the
  lower-cased text, or \<open>unknown\<close> with an empty cause and no suggestions when none does.
\<close>

lemma failure_analysis_classification:
  "(\<forall>a. analyze_result cfg py_str extract recommend now result hypothesis recent = Inr a \<longrightarrow>
        (an_failure_analysis a \<noteq> None \<longleftrightarrow> \<not> success result)) \<and>
   (\<not> success result \<and>
    (error result = Some (JStr error_text) \<or> (error result = None \<and> error_text = [])) \<longrightarrow>
      (\<exists>a failure.
         analyze_result cfg py_str extract recommend now result hypothesis recent = Inr a \<and>
         an_failure_analysis a = Some failure \<and>
         (let has = (\<lambda>word. \<exists>before after. lower error_text = before @ word @ after)
          in (has ''timeout'' \<longrightarrow>
                failure = \<lparr>error_type = ''timeout'',
                           likely_cause = ''Algorithm complexity too high'',
                           suggestions = [''Reduce problem size'', ''Optimize algorithm'',
                                          ''Increase timeout limit'']\<rparr>) \<and>
             (\<not> has ''timeout'' \<and> has ''memory'' \<longrightarrow>
                failure = \<lparr>error_type = ''memory'',
                           likely_cause = ''Excessive memory usage'',
                           suggestions = [''Use memory-efficient data structures'',
                                          ''Process data in chunks'', ''Reduce data size'']\<rparr>) \<and>
             (\<not> has ''timeout'' \<and> \<not> has ''memory'' \<and> (has ''syntax'' \<or> has ''name'') \<longrightarrow>
                failure = \<lparr>error_type = ''code_error'',
                           likely_cause = ''Code generation issue'',
                           suggestions = [''Improve code generation prompts'',
                                          ''Add better error handling'',
                                          ''Validate generated code'']\<rparr>) \<and>
             (\<not> has ''timeout'' \<and> \<not> has ''memory'' \<and> \<not> has ''syntax'' \<and> \<not> has ''name'' \<longrightarrow>
                failure = \<lparr>error_type = ''unknown'', likely_cause = [], suggestions = []\<rparr>))))"
proof -
  have field: "\<forall>a. analyze_result cfg py_str extract recommend now result hypothesis recent = Inr a
      \<longrightarrow> (an_failure_analysis a \<noteq> None \<longleftrightarrow> \<not> success result)"
    using analyze_result_failure_field by blast
  have classified: "\<exists>a failure.
         analyze_result cfg py_str extract recommend now result hypothesis recent = Inr a \<and>
         an_failure_analysis a = Some failure \<and>
         (let has = (\<lambda>word. \<exists>before after. lower error_text = before @ word @ after)
          in (has ''timeout'' \<longrightarrow>
                failure = \<lparr>error_type = ''timeout'',
                           likely_cause = ''Algorithm complexity too high'',
                           suggestions = [''Reduce problem size'', ''Optimize algorithm'',
                                          ''Increase timeout limit'']\<rparr>) \<and>
             (\<not> has ''timeout'' \<and> has ''memory'' \<longrightarrow>
                failure = \<lparr>error_type = ''memory'',
                           likely_cause = ''Excessive memory usage'',
                           suggestions = [''Use memory-efficient data structures'',
                                          ''Process data in chunks'', ''Reduce data size'']\<rparr>) \<and>
             (\<not> has ''timeout'' \<and> \<not> has ''memory'' \<and> (has ''syntax'' \<or> has ''name'') \<longrightarrow>
                failure = \<lparr>error_type = ''code_error'',
                           likely_cause = ''Code generation issue'',
                           suggestions = [''Improve code generation prompts'',
                                          ''Add better error handling'',
                                          ''Validate generated code'']\<rparr>) \<and>
             (\<not> has ''timeout'' \<and> \<not> has ''memory'' \<and> \<not> has ''syntax'' \<and> \<not> has ''name'' \<longrightarrow>
                failure = \<lparr>error_type = ''unknown'', likely_cause = [], suggestions = []\<rparr>))"
    if failed: "\<not> success result"
      and err: "error result = Some (JStr error_text) \<or> (error result = None \<and> error_text = [])"
  proof -
    from analyze_result_failed_text [OF failed err]
    obtain a where a: "analyze_result cfg py_str extract recommend now result hypothesis recent = Inr a"
      "an_failure_analysis a = Some (classify_error error_text)" by blast
    have "let has = (\<lambda>word. \<exists>before after. lower error_text = before @ word @ after)
          in (has ''timeout'' \<longrightarrow>
                classify_error error_text = \<lparr>error_type = ''timeout'',
                           likely_cause = ''Algorithm complexity too high'',
                           suggestions = [''Reduce problem size'', ''Optimize algorithm'',
                                          ''Increase timeout limit'']\<rparr>) \<and>
             (\<not> has ''timeout'' \<and> has ''memory'' \<longrightarrow>
                classify_error error_text = \<lparr>error_type = ''memory'',
                           likely_cause = ''Excessive memory usage'',
                           suggestions = [''Use memory-efficient data structures'',
                                          ''Process data in chunks'', ''Reduce data size'']\<rparr>) \<and>
             (\<not> has ''timeout'' \<and> \<not> has ''memory'' \<and> (has ''syntax'' \<or> has ''name'') \<longrightarrow>
                classify_error error_text = \<lparr>error_type = ''code_error'',
                           likely_cause = ''Code generation issue'',
                           suggestions = [''Improve code generation prompts'',
                                          ''Add better error handling'',
                                          ''Validate generated code'']\<rparr>) \<and>
             (\<not> has ''timeout'' \<and> \<not> has ''memory'' \<and> \<not> has ''syntax'' \<and> \<not> has ''name'' \<longrightarrow>
                classify_error error_text = \<lparr>error_type = ''unknown'', likely_cause = [], suggestions = []\<rparr>)"
      unfolding Let_def classify_error_def contains_iff by simp
    with a show ?thesis by blast
  qed
  from field classified show ?thesis by blast
qed

text \<open>
  The two messages of the engineer: its timeout message is classified as a timeout, and
  its memory message, which starts with a capital letter, as a memory failure.
\<close>

lemma failure_analysis_classification_examples:
  "(\<exists>a. analyze_result default_config example_str no_insights no_recommendations 7
          timeout_result plain_hypothesis [] = Inr a \<and>
        an_failure_analysis a =
          Some \<lparr>error_type = ''timeout'', likely_cause = ''Algorithm complexity too high'',
                suggestions = [''Reduce problem size'', ''Optimize algorithm'',
                               ''Increase timeout limit'']\<rparr>) \<and>
   (\<exists>a. analyze_result default_config example_str no_insights no_recommendations 7
          memory_result plain_hypothesis [] = Inr a \<and>
        an_failure_analysis a =
          Some \<lparr>error_type = ''memory'', likely_cause = ''Excessive memory usage'',
                suggestions = [''Use memory-efficient data structures'',
                               ''Process data in chunks'', ''Reduce data size'']\<rparr>)"
proof -
  have failed: "\<not> success timeout_result" "\<not> success memory_result"
    and err: "error timeout_result = Some (JStr ''Execution timeout (30s)'')"
      "error memory_result = Some (JStr ''Memory limit exceeded: 2000.0MB'')"
    by (simp_all add: timeout_result_def memory_result_def)
  have "contains ''timeout'' (lower ''Execution timeout (30s)'')"
    by (simp add: lower_def lower_char_def)
  then have has_timeout:
    "\<exists>before after. lower ''Execution timeout (30s)'' = before @ ''timeout'' @ after"
    by (simp add: contains_iff)
  have "contains ''memory'' (lower ''Memory limit exceeded: 2000.0MB'')"
    "\<not> contains ''timeout'' (lower ''Memory limit exceeded: 2000.0MB'')"
    by (simp_all add: lower_def lower_char_def)
  then have has_memory:
    "\<exists>before after. lower ''Memory limit exceeded: 2000.0MB'' = before @ ''memory'' @ after"
    "\<not> (\<exists>before after. lower ''Memory limit exceeded: 2000.0MB'' = before @ ''timeout'' @ after)"
    by (simp_all add: contains_iff)
  note timeout = failure_analysis_classification [of default_config example_str no_insights
      no_recommendations 7 timeout_result plain_hypothesis "[]" "''Execution timeout (30s)''",
      unfolded Let_def, THEN conjunct2, rule_format]
  note memory = failure_analysis_classification [of default_config example_str no_insights
      no_recommendations 7 memory_result plain_hypothesis "[]"
      "''Memory limit exceeded: 2000.0MB''", unfolded Let_def, THEN conjunct2, rule_format]
  have first: "\<exists>a. analyze_result default_config example_str no_insights no_recommendations 7
          timeout_result plain_hypothesis [] = Inr a \<and>
        an_failure_analysis a =
          Some \<lparr>error_type = ''timeout'', likely_cause = ''Algorithm complexity too high'',
                suggestions = [''Reduce problem size'', ''Optimize algorithm'',
                               ''Increase timeout limit'']\<rparr>"
    using timeout failed(1) err(1) has_timeout by blast
  have second: "\<exists>a. analyze_result default_config example_str no_insights no_recommendations 7
          memory_result plain_hypothesis [] = Inr a \<and>
        an_failure_analysis a =
          Some \<lparr>error_type = ''memory'', likely_cause = ''Excessive memory usage'',
                suggestions = [''Use memory-efficient data structures'',
                               ''Process data in chunks'', ''Reduce data size'']\<rparr>"
    using memory failed(2) err(2) has_memory by blast
  from first second show ?thesis by blast
qed

text \<open>
  A failed result whose error entry is not a text (Python's \<^verbatim>\<open>None\<close>, say) makes
  \<^verbatim>\<open>_analyze_failure\<close> raise, and no analysis is returned.
\<close>

lemma analyze_result_error_none:
  "\<not> success result \<Longrightarrow> error result = Some JNull \<Longrightarrow>
   analyze_result cfg py_str extract recommend now result hypothesis recent = Inl AttributeError"
  by (simp add: analyze_result_def analyze_failure_def Let_def)

text \<open>
  C7. The claim (the analysis of every failed result has a failure analysis, classified
  \<open>unknown\<close> when no keyword matches) fails on the code for a failed result the engineer
  itself produces. A subprocess that ends within its limits and prints nothing leaves
  \<^verbatim>\<open>success\<close> false and \<^verbatim>\<open>error\<close> at \<^verbatim>\<open>None\<close>. The key is present, so
  \<^verbatim>\<open>result.get("error", "")\<close> returns \<^verbatim>\<open>None\<close> and not the default text, the call of
  \<^verbatim>\<open>lower\<close> on it raises \<^verbatim>\<open>AttributeError\<close>, and \<^verbatim>\<open>analyze_result\<close> returns no
  analysis at all.
\<close>

theorem analyze_result_silent_failure:
  "ex_success (execute_windows default_config harness_loads example_fmt_1f example_str_int
                 (Communicated [] [] 0)) = False \<and>
   ex_error (execute_windows default_config harness_loads example_fmt_1f example_str_int
               (Communicated [] [] 0)) = JNull \<and>
   success silent_result = False \<and>
   error silent_result = Some JNull \<and>
   analyze_failure silent_result plain_hypothesis = Inl AttributeError \<and>
   analyze_result default_config example_str no_insights no_recommendations 7
     silent_result plain_hypothesis [] = Inl AttributeError"
  by (simp add: execute_windows_def analyze_result_def analyze_failure_def silent_result_def
      default_config_def Let_def)


section \<open>Properties of the engineer\<close>

lemma split_on_from_nonempty: "split_on_from sep cur s \<noteq> []"
  by (induction s arbitrary: cur) auto

lemma last_split_on_from:
  "sep \<notin> set cur \<Longrightarrow>
   \<exists>pre. rev cur @ s = pre @ last (split_on_from sep cur s) \<and>
         sep \<notin> set (last (split_on_from sep cur s)) \<and>
         (pre = [] \<or> last pre = sep)"
proof (induction s arbitrary: cur)
  case Nil
  then show ?case by auto
next
  case (Cons c cs)
  show ?case
  proof (cases "c = sep")
    case True
    from Cons.IH [of "[]"] obtain pre where pre:
      "cs = pre @ last (split_on_from sep [] cs)"
      "sep \<notin> set (last (split_on_from sep [] cs))"
      "pre = [] \<or> last pre = sep" by auto
    have l: "last (split_on_from sep cur (c # cs)) = last (split_on_from sep [] cs)"
      using True by (simp add: split_on_from_nonempty)
    have "rev cur @ c # cs = (rev cur @ c # pre) @ last (split_on_from sep [] cs)"
      using pre(1) by simp
    moreover have "last (rev cur @ c # pre) = sep"
      using pre(3) True by auto
    ultimately show ?thesis unfolding l using pre(2) by blast
  next
    case False
    with Cons.prems have "sep \<notin> set (c # cur)" by auto
    from Cons.IH [OF this] False show ?thesis by simp
  qed
qed

lemma final_line_is_last_line:
  "\<exists>pre. strip stdout = pre @ final_line stdout \<and> newline \<notin> set (final_line stdout) \<and>
         (pre = [] \<or> last pre = newline)"
  using last_split_on_from [of newline "[]" "strip stdout"]
  by (simp add: final_line_def split_on_def)

lemma falsy_cases:
  "\<not> truthy (dict_get obj k) \<longleftrightarrow>
     map_of obj k \<in> {None, Some JNull, Some (JBool False), Some (JInt 0), Some (JFloat 0),
                     Some (JStr []), Some (JArr []), Some (JObj [])}"
proof (cases "map_of obj k")
  case None
  then show ?thesis by (simp add: dict_get_def)
next
  case (Some v)
  then show ?thesis by (cases v) (auto simp: dict_get_def)
qed

text \<open>
  C2, as the code has it. When the subprocess ends within the time limit, the memory
  difference does not exceed \<open>MAX_MEMORY_MB\<close> and stdout is not empty, the engineer parses
  only the final line of the stripped stdout: the result depends on the parser through that
  line alone. If the line parses to a JSON object, output and error are its entries and
  success holds exactly when the error entry is falsy: missing, null, false, zero, or an
  empty string, list or object. If the line does not parse, or parses to a value that is
  not an object, the raw stdout is the output, success is true and the error stays
  \<^verbatim>\<open>None\<close>.
\<close>

theorem execute_windows_parses_final_line:
  assumes "stdout \<noteq> []" and "memory_used \<le> MAX_MEMORY_MB cfg"
  shows
    "(let r = execute_windows cfg json_loads fmt_1f str_int
                (Communicated stdout stderr memory_used)
      in (\<exists>pre. strip stdout = pre @ final_line stdout \<and> newline \<notin> set (final_line stdout) \<and>
                (pre = [] \<or> last pre = newline)) \<and>
         (\<forall>loads'. loads' (final_line stdout) = json_loads (final_line stdout) \<longrightarrow>
            execute_windows cfg loads' fmt_1f str_int (Communicated stdout stderr memory_used) = r) \<and>
         (\<forall>obj. json_loads (final_line stdout) = Some (JObj obj) \<longrightarrow>
            ex_output r = dict_get obj ''output'' \<and>
            ex_error r = dict_get obj ''error'' \<and>
            (ex_success r \<longleftrightarrow>
               map_of obj ''error'' \<in>
                 {None, Some JNull, Some (JBool False), Some (JInt 0), Some (JFloat 0),
                  Some (JStr []), Some (JArr []), Some (JObj [])})) \<and>
         ((\<forall>obj. json_loads (final_line stdout) \<noteq> Some (JObj obj)) \<longrightarrow>
            ex_output r = JStr stdout \<and> ex_success r \<and> ex_error r = JNull))"
proof -
  let ?run = "\<lambda>loads. execute_windows cfg loads fmt_1f str_int
                        (Communicated stdout stderr memory_used)"
  have same: "?run loads' = ?run json_loads"
    if "loads' (final_line stdout) = json_loads (final_line stdout)" for loads'
    using that assms by (simp add: execute_windows_def Let_def)
  have parsed: "ex_output (?run json_loads) = dict_get obj ''output'' \<and>
      ex_error (?run json_loads) = dict_get obj ''error'' \<and>
      (ex_success (?run json_loads) \<longleftrightarrow>
         map_of obj ''error'' \<in>
           {None, Some JNull, Some (JBool False), Some (JInt 0), Some (JFloat 0),
            Some (JStr []), Some (JArr []), Some (JObj [])})"
    if "json_loads (final_line stdout) = Some (JObj obj)" for obj
    using that assms falsy_cases [of obj "''error''"]
    by (simp add: execute_windows_def Let_def)
  have raw: "ex_output (?run json_loads) = JStr stdout \<and> ex_success (?run json_loads) \<and>
      ex_error (?run json_loads) = JNull"
    if "\<forall>obj. json_loads (final_line stdout) \<noteq> Some (JObj obj)"
    using that assms
    by (auto simp: execute_windows_def Let_def split: option.splits json.splits)
  show ?thesis
    unfolding Let_def using final_line_is_last_line [of stdout] same parsed raw by blast
qed

lemma harness_final_line: "final_line harness_stdout = harness_line"
  unfolding final_line_def harness_stdout_def harness_line_def strip_def split_on_def newline_def
  by code_simp

text \<open>
  C2 as stated fails on the code: user code that raises an exception with an empty message
  makes the harness print an error entry that is present and holds the empty string, and
  the engineer reports success.
\<close>

theorem execute_windows_success_counterexample:
  "harness_loads (final_line harness_stdout) =
     Some (JObj [(''output'', JNull), (''error'', JStr []),
                 (''timing'', JObj [(''total'', JFloat 0.5)])]) \<and>
   map_of [(''output'', JNull), (''error'', JStr []),
           (''timing'', JObj [(''total'', JFloat 0.5)])] ''error'' = Some (JStr []) \<and>
   ex_success (execute_windows default_config harness_loads example_fmt_1f example_str_int
                 (Communicated harness_stdout [] 0))"
proof -
  have nonempty: "harness_stdout \<noteq> []" by (simp add: harness_stdout_def)
  have mem: "\<not> (0::real) > MAX_MEMORY_MB default_config" by (simp add: default_config_def)
  have loads: "harness_loads (final_line harness_stdout) =
     Some (JObj [(''output'', JNull), (''error'', JStr []),
                 (''timing'', JObj [(''total'', JFloat 0.5)])])"
    by (simp add: harness_final_line harness_loads_def)
  show ?thesis
    using nonempty mem by (simp add: execute_windows_def Let_def loads dict_get_def)
qed

text \<open>That run, and the same stdout under a parser that rejects every line.\<close>

theorem execute_windows_parses_final_line_witness:
  "harness_stdout \<noteq> [] \<and> (0::real) \<le> MAX_MEMORY_MB default_config \<and>
   final_line harness_stdout = harness_line \<and>
   ex_output (execute_windows default_config harness_loads example_fmt_1f example_str_int
                (Communicated harness_stdout [] 0)) = JNull \<and>
   ex_error (execute_windows default_config harness_loads example_fmt_1f example_str_int
               (Communicated harness_stdout [] 0)) = JStr [] \<and>
   ex_success (execute_windows default_config harness_loads example_fmt_1f example_str_int
                 (Communicated harness_stdout [] 0)) \<and>
   ex_output (execute_windows default_config (\<lambda>line. None) example_fmt_1f example_str_int
                (Communicated harness_stdout [] 0)) = JStr harness_stdout"
proof -
  have nonempty: "harness_stdout \<noteq> []" by (simp add: harness_stdout_def)
  have mem: "(0::real) \<le> MAX_MEMORY_MB default_config" by (simp add: default_config_def)
  have loads: "harness_loads (final_line harness_stdout) =
     Some (JObj [(''output'', JNull), (''error'', JStr []),
                 (''timing'', JObj [(''total'', JFloat 0.5)])])"
    by (simp add: harness_final_line harness_loads_def)
  note parsed = execute_windows_parses_final_line [OF nonempty mem, of harness_loads
      example_fmt_1f example_str_int "[]", unfolded Let_def, THEN conjunct2, THEN conjunct2,
      THEN conjunct1, rule_format, OF loads]
  note raw = execute_windows_parses_final_line [OF nonempty mem, of "\<lambda>line. None"
      example_fmt_1f example_str_int "[]", unfolded Let_def, THEN conjunct2, THEN conjunct2,
      THEN conjunct2, rule_format]
  have err: "map_of [(''output'', JNull), (''error'', JStr []),
                     (''timing'', JObj [(''total'', JFloat 0.5)])] ''error'' = Some (JStr [])"
    by simp
  have gets: "dict_get [(''output'', JNull), (''error'', JStr []),
                        (''timing'', JObj [(''total'', JFloat 0.5)])] ''output'' = JNull"
    "dict_get [(''output'', JNull), (''error'', JStr []),
               (''timing'', JObj [(''total'', JFloat 0.5)])] ''error'' = JStr []"
    by (simp_all add: dict_get_def)
  from parsed have
    "ex_output (execute_windows default_config harness_loads example_fmt_1f example_str_int
                (Communicated harness_stdout [] 0)) = JNull"
    "ex_error (execute_windows default_config harness_loads example_fmt_1f example_str_int
               (Communicated harness_stdout [] 0)) = JStr []"
    "ex_success (execute_windows default_config harness_loads example_fmt_1f example_str_int
                 (Communicated harness_stdout [] 0))"
    unfolding gets err by simp_all
  moreover from raw have
    "ex_output (execute_windows default_config (\<lambda>line. None) example_fmt_1f example_str_int
                (Communicated harness_stdout [] 0)) = JStr harness_stdout"
    by simp
  ultimately show ?thesis using nonempty mem harness_final_line by blast
qed


section \<open>Properties of the mutation generator\<close>

lemma successful_experiments_iff:
  "successful_experiments recent \<noteq> [] \<longleftrightarrow>
     (\<exists>e \<in> set recent. \<exists>r. exp_result e = Some r \<and> success r)"
  by (auto simp: successful_experiments_def filter_empty_conv split: option.splits)

lemma successful_experiments_nth:
  assumes "choice < length (successful_experiments recent)"
  shows "successful_experiments recent ! choice \<in> set recent \<and>
         (\<exists>r. exp_result (successful_experiments recent ! choice) = Some r \<and> success r)"
proof -
  have "successful_experiments recent ! choice \<in> set (successful_experiments recent)"
    using assms by simp
  then show ?thesis
    by (auto simp: successful_experiments_def split: option.splits)
qed

lemma generate_mutations_nonempty:
  "generate_mutations now choice recent \<noteq> [] \<longleftrightarrow> successful_experiments recent \<noteq> []"
  by (simp add: generate_mutations_def Let_def)

lemma generate_mutations_single:
  assumes "successful_experiments recent \<noteq> []"
  shows "generate_mutations now choice recent =
    [\<lparr>hyp_timestamp = now,
      source = ''mutation'',
      description =
        ''Modify parameters in ''
          @ description (exp_hypothesis (successful_experiments recent ! choice)),
      approach =
        Some (''parameter_change of ''
              @ (case approach (exp_hypothesis (successful_experiments recent ! choice)) of
                   None \<Rightarrow> ''previous approach''
                 | Some a \<Rightarrow> a)),
      code_sketch =
        Some (mutate_code
                (case code_sketch (exp_hypothesis (successful_experiments recent ! choice)) of
                   None \<Rightarrow> []
                 | Some c \<Rightarrow> c)),
      expected_outcome = Some ''Improved upon previous success'',
      hyp_metrics =
        Some (case hyp_metrics (exp_hypothesis (successful_experiments recent ! choice)) of
                None \<Rightarrow> [''performance'']
              | Some ms \<Rightarrow> ms)\<rparr>]"
  using assms by (simp add: generate_mutations_def Let_def)

text \<open>
  C6, as the code has it. The mutation generator produces hypotheses only when at least one
  experiment of the recent-experiment list succeeded; in that case it produces exactly one
  mutated hypothesis, whose base is the successful experiment that \<^verbatim>\<open>random.choice\<close>
  draws (any of the successful ones) and whose archetype is always \<open>parameter_change\<close>, the
  first of the three.
\<close>

theorem mutation_generator:
  "(mutation_hypotheses now choice recent = generate_mutations now choice recent) \<and>
   (generate_mutations now choice recent \<noteq> [] \<longleftrightarrow>
      (\<exists>e \<in> set recent. \<exists>r. exp_result e = Some r \<and> success r)) \<and>
   (choice < length (successful_experiments recent) \<longrightarrow>
      (\<exists>h base.
         generate_mutations now choice recent = [h] \<and>
         base = successful_experiments recent ! choice \<and>
         base \<in> set recent \<and>
         (\<exists>r. exp_result base = Some r \<and> success r) \<and>
         source h = ''mutation'' \<and>
         description h = ''Modify parameters in '' @ description (exp_hypothesis base) \<and>
         approach h =
           Some (''parameter_change of ''
                 @ (case approach (exp_hypothesis base) of
                      None \<Rightarrow> ''previous approach''
                    | Some a \<Rightarrow> a))))"
proof -
  have step: "mutation_hypotheses now choice recent = generate_mutations now choice recent"
    by (simp add: mutation_hypotheses_def generate_mutations_def successful_experiments_def)
  have only: "generate_mutations now choice recent \<noteq> [] \<longleftrightarrow>
      (\<exists>e \<in> set recent. \<exists>r. exp_result e = Some r \<and> success r)"
    by (simp add: generate_mutations_nonempty successful_experiments_iff)
  have one: "\<exists>h base.
         generate_mutations now choice recent = [h] \<and>
         base = successful_experiments recent ! choice \<and>
         base \<in> set recent \<and>
         (\<exists>r. exp_result base = Some r \<and> success r) \<and>
         source h = ''mutation'' \<and>
         description h = ''Modify parameters in '' @ description (exp_hypothesis base) \<and>
         approach h =
           Some (''parameter_change of ''
                 @ (case approach (exp_hypothesis base) of
                      None \<Rightarrow> ''previous approach''
                    | Some a \<Rightarrow> a))"
    if "choice < length (successful_experiments recent)"
  proof -
    from that have "successful_experiments recent \<noteq> []" by auto
    from generate_mutations_single [OF this, of now choice]
      successful_experiments_nth [OF that]
    show ?thesis by simp
  qed
  from step only one show ?thesis by blast
qed

lemma both_successful:
  "successful_experiments [newest_experiment, oldest_experiment] =
     [newest_experiment, oldest_experiment]"
  by (simp add: successful_experiments_def newest_experiment_def oldest_experiment_def
      bare_result_def)

text \<open>
  C6 as stated fails on the code: with two successful experiments the draw 1 takes the
  older one as the base, not the newest, and for both draws the archetype is
  \<open>parameter_change\<close>; \<open>combination\<close> and \<open>extension\<close> are never produced.
\<close>

theorem mutation_generator_counterexample:
  "successful_experiments [newest_experiment, oldest_experiment] =
     [newest_experiment, oldest_experiment] \<and>
   description (exp_hypothesis newest_experiment) = ''Use caching in bubble sort'' \<and>
   description (hd (generate_mutations 300 1 [newest_experiment, oldest_experiment])) =
     ''Modify parameters in Sieve primes in segments'' \<and>
   approach (hd (generate_mutations 300 0 [newest_experiment, oldest_experiment])) =
     Some ''parameter_change of Template-based approach for optimization'' \<and>
   approach (hd (generate_mutations 300 1 [newest_experiment, oldest_experiment])) =
     Some ''parameter_change of segmented sieve''"
proof -
  have ne: "successful_experiments [newest_experiment, oldest_experiment] \<noteq> []"
    by (simp add: both_successful)
  show ?thesis
    unfolding generate_mutations_single [OF ne] both_successful
    by (simp add: newest_experiment_def oldest_experiment_def sort_hypothesis_def
        plain_hypothesis_def)
qed

text \<open>One mutation from two successful experiments, none from an experiment without a result.\<close>

theorem mutation_generator_witness:
  "(1::nat) < length (successful_experiments [newest_experiment, oldest_experiment]) \<and>
   length (generate_mutations 300 1 [newest_experiment, oldest_experiment]) = 1 \<and>
   source (hd (generate_mutations 300 1 [newest_experiment, oldest_experiment])) = ''mutation'' \<and>
   description (hd (generate_mutations 300 1 [newest_experiment, oldest_experiment])) =
     ''Modify parameters in Sieve primes in segments'' \<and>
   generate_mutations 300 0 [untimed_experiment\<lparr>exp_result := None\<rparr>] = []"
proof -
  have pick: "(1::nat) < length (successful_experiments [newest_experiment, oldest_experiment])"
    by (simp add: both_successful)
  note claim = mutation_generator [of 300 1 "[newest_experiment, oldest_experiment]"]
  note none = mutation_generator [of 300 0 "[untimed_experiment\<lparr>exp_result := None\<rparr>]"]
  from claim pick obtain h where h:
    "generate_mutations 300 1 [newest_experiment, oldest_experiment] = [h]"
    "source h = ''mutation''"
    "description h = ''Modify parameters in ''
       @ description (exp_hypothesis
           (successful_experiments [newest_experiment, oldest_experiment] ! 1))"
    by blast
  have d: "description (exp_hypothesis
             (successful_experiments [newest_experiment, oldest_experiment] ! 1)) =
           ''Sieve primes in segments''"
    unfolding both_successful by (simp add: oldest_experiment_def plain_hypothesis_def)
  from none have empty: "generate_mutations 300 0 [untimed_experiment\<lparr>exp_result := None\<rparr>] = []"
    by simp
  show ?thesis using pick h d empty by simp
qed

end
